theory Spec2Isabelle
  imports Main "HOL-Library.AList" "HOL-Library.Sublist"
begin

section \<open>The relationship layer of neomodel (\<^verbatim>\<open>neomodel/relationship_manager.py\<close>)\<close>

text \<open>
  The module builds Cypher text from a relationship definition and hands it to the source
  node's \<^verbatim>\<open>cypher\<close> method. The embedding keeps the query text as the strings the code
  builds, threads the database and a trace of every external call through each operation,
  and returns every \<^verbatim>\<open>raise\<close> as \<open>Inl\<close> of an error value. What the database does
  with a query is the session's business: the session is a parameter, and the properties
  below speak of the queries it is handed and of the answers it gives.

  Every function that can raise takes an observer, which is told of each error where it
  is raised. The operations of the module are the functions under the observer
  \<open>silent\<close>, which does nothing; under the observer \<open>recording\<close> each raise is added to
  the trace, so that a property can speak of every failure that happened in a run.

  Left out: \<^verbatim>\<open>__str__\<close>, \<^verbatim>\<open>_lookup_node_class\<close> and \<^verbatim>\<open>build_manager\<close>, and the warning
  of the \<^verbatim>\<open>deprecated\<close> decorator on \<^verbatim>\<open>search\<close>.
\<close>

subsection \<open>Python values\<close>

datatype pyval = PNone | PBool bool | PInt int | PStr string | PList "pyval list"

text \<open>A \<^verbatim>\<open>dict\<close> with string keys, in insertion order; \<^verbatim>\<open>d[k] = v\<close> is \<open>AList.update\<close>.\<close>

type_synonym pydict = "(string \<times> pyval) list"

text \<open>
  A class object: its identity, its \<^verbatim>\<open>__name__\<close> and its \<^verbatim>\<open>__bases__\<close>. Python compares
  classes by identity: two classes of the same name and bases, declared in two modules,
  are two objects, here two values that differ in \<open>cls_id\<close>.
\<close>

datatype pycls = PyClass (cls_id: nat) (name_of: string) (bases_of: "pycls list")

text \<open>\<^verbatim>\<open>issubclass(c, d)\<close>: \<open>d\<close> is \<open>c\<close> or an ancestor of \<open>c\<close>.\<close>

fun issubclass :: "pycls \<Rightarrow> pycls \<Rightarrow> bool" where
  "issubclass (PyClass i n bs) d = (PyClass i n bs = d \<or> (\<exists>b \<in> set bs. issubclass b d))"

text \<open>\<^verbatim>\<open>is_direct_subclass\<close>: the loop over \<^verbatim>\<open>obj.__bases__\<close>, one level.\<close>

fun some_base_is :: "pycls list \<Rightarrow> pycls \<Rightarrow> bool" where
  "some_base_is [] classinfo = False"
| "some_base_is (base # rest) classinfo =
     (if base = classinfo then True else some_base_is rest classinfo)"

definition is_direct_subclass :: "pycls \<Rightarrow> pycls \<Rightarrow> bool" where
  "is_direct_subclass obj classinfo = some_base_is (bases_of obj) classinfo"

text \<open>
  Modelled from the spec: \<^verbatim>\<open>StructuredRel\<close> (module \<^verbatim>\<open>relationship\<close>), "the generic
  edge-property base". Only its identity as a class matters here.
\<close>

definition StructuredRel :: pycls where
  "StructuredRel = PyClass 1 ''StructuredRel'' []"

text \<open>The class of \<^verbatim>\<open>None\<close>, which \<^verbatim>\<open>obj.__class__\<close> yields when no node is passed.\<close>

definition NoneType :: pycls where
  "NoneType = PyClass 2 ''NoneType'' []"

text \<open>
  A node instance: its class, its \<^verbatim>\<open>id\<close> attribute (\<open>None\<close> when the attribute is
  absent, the node being unsaved) and its \<^verbatim>\<open>deleted\<close> flag.
\<close>

record node =
  n_class :: pycls
  n_id :: "int option"
  n_deleted :: bool

datatype direction = OUTGOING | INCOMING | EITHER

text \<open>The registry \<^verbatim>\<open>db._NODE_CLASS_REGISTRY\<close>: from a frozenset of labels to a class.\<close>

type_synonym registry = "string set \<rightharpoonup> pycls"

datatype error =
    ValueError string
  | NotImplementedError string
  | IndexError string
  | AttributeError string
  | KeyError string
  | NotConnected string node node
  | RelationshipClassRedefined string registry pycls
  | CollaboratorError string

definition failure :: "error + 'a \<Rightarrow> error option" where
  "failure r = (case r of Inl e \<Rightarrow> Some e | Inr _ \<Rightarrow> None)"

subsection \<open>Edges and edge-property classes\<close>

text \<open>A relationship as the driver returns it; \<^verbatim>\<open>_get_node_properties\<close> reads its properties.\<close>

record raw_rel =
  rel_properties :: pydict

definition get_node_properties :: "raw_rel \<Rightarrow> pydict" where
  "get_node_properties r = rel_properties r"

text \<open>An edge-property instance with its two back-references.\<close>

record rel_instance =
  inst_class :: pycls
  inst_properties :: pydict
  start_node_class :: "pycls option"
  end_node_class :: "pycls option"

text \<open>
  An edge-property class as this module uses it: the class object, its declared fields
  with their defaults, \<^verbatim>\<open>deflate\<close>, \<^verbatim>\<open>inflate\<close> and the two optional hooks
  (\<open>None\<close> when \<^verbatim>\<open>hasattr\<close> is false). The hooks run for their effect outside this module
  and may raise.
\<close>

record rel_model =
  rm_class :: pycls
  rm_declared :: pydict
  rm_deflate :: "pydict \<Rightarrow> error + pydict"
  rm_inflate :: "raw_rel \<Rightarrow> error + rel_instance"
  rm_pre_save :: "(rel_instance \<Rightarrow> error + unit) option"
  rm_post_save :: "(rel_instance \<Rightarrow> error + unit) option"

text \<open>
  Modelled from the spec: the constructor \<^verbatim>\<open>rel_model(**properties)\<close> of the edge-property
  class (module \<^verbatim>\<open>relationship\<close>), "instantiate it from properties (applying declared
  defaults for omitted fields)": every declared field takes the supplied value, or its
  declared default when the field is omitted.
\<close>

definition instantiate :: "rel_model \<Rightarrow> pydict \<Rightarrow> rel_instance" where
  "instantiate m properties =
     \<lparr>inst_class = rm_class m,
      inst_properties =
        map (\<lambda>(field, dflt).
               (field, case map_of properties field of Some v \<Rightarrow> v | None \<Rightarrow> dflt))
            (rm_declared m),
      start_node_class = None,
      end_node_class = None\<rparr>"

subsection \<open>The trace and the observer of raises\<close>

text \<open>
  Every call that leaves this module is recorded, with the error it raised if any:
  a query handed to the session, a call of an edge-property class or of the traversal,
  and the \<^verbatim>\<open>print\<close> of \<^verbatim>\<open>bulk_disconnect\<close>. A raise inside the module is recorded by the
  observer \<open>recording\<close> only.
\<close>

datatype event =
    Cypher string "pydict option" "error option"
  | Collab string "error option"
  | Print string "string list"
  | Raised error

record 'db state =
  db :: 'db
  trace :: "event list"

type_synonym 'db observer = "error \<Rightarrow> 'db state \<Rightarrow> 'db state"

definition silent :: "'db observer" where
  "silent e st = st"

definition recording :: "'db observer" where
  "recording e st = st\<lparr>trace := trace st @ [Raised e]\<rparr>"

text \<open>A \<^verbatim>\<open>raise\<close>: the error is the result, and the observer is told.\<close>

definition raise_error :: "'db observer \<Rightarrow> error \<Rightarrow> 'db state \<Rightarrow> (error + 'a) \<times> 'db state" where
  "raise_error obs e st = (Inl e, obs e st)"

subsection \<open>The relationship definition and the registry\<close>

text \<open>
  \<^verbatim>\<open>self.definition\<close> as \<^verbatim>\<open>__init__\<close> fills it; \<^verbatim>\<open>_lookup_node_class\<close> adds
  \<^verbatim>\<open>node_class\<close> before a manager is built.
\<close>

record definition_dict0 =
  relation_type :: string
  direction :: direction
  model :: "rel_model option"

record definition_dict = definition_dict0 +
  node_class :: pycls

text \<open>The first argument of a declaration: a class, or the name of one.\<close>

datatype cls_ref = ClsName string | ClsObj pycls

text \<open>A stack frame: its \<^verbatim>\<open>f_globals\<close>.\<close>

record frame =
  f_globals :: pydict

record relationship_definition =
  rd_module_name :: pyval
  rd_module_file :: "pyval option"
  rd_raw_class :: cls_ref
  rd_manager :: pycls
  rd_definition :: definition_dict0

text \<open>\<^verbatim>\<open>cls_name in frame.f_globals\<close>: the globals are keyed by strings.\<close>

definition in_globals :: "cls_ref \<Rightarrow> frame \<Rightarrow> bool" where
  "in_globals cls_name fr =
     (case cls_name of
        ClsName s \<Rightarrow> map_of (f_globals fr) s \<noteq> None
      | ClsObj _ \<Rightarrow> False)"

text \<open>
  The loop over \<^verbatim>\<open>enumerate_traceback(current_frame)\<close>: the depth of the first frame
  whose globals hold \<^verbatim>\<open>cls_name\<close>; \<open>frames\<close> is the stack, \<^verbatim>\<open>__init__\<close>'s frame first.
\<close>

fun first_frame_with :: "cls_ref \<Rightarrow> nat \<Rightarrow> frame list \<Rightarrow> nat option" where
  "first_frame_with cls_name i [] = None"
| "first_frame_with cls_name i (fr # rest) =
     (if in_globals cls_name fr then Some i else first_frame_with cls_name (Suc i) rest)"

definition frame_number :: "cls_ref \<Rightarrow> frame list \<Rightarrow> nat" where
  "frame_number cls_name frames =
     (case first_frame_with cls_name 0 frames of Some i \<Rightarrow> i | None \<Rightarrow> 4)"

text \<open>
  The construction of a relationship definition runs on a state whose database is the
  registry \<^verbatim>\<open>db._NODE_CLASS_REGISTRY\<close>.

  \<^verbatim>\<open>sys._getframe(n)\<close> raises \<^verbatim>\<open>ValueError\<close> when the stack is not that deep.
\<close>

definition getframe_obs ::
  "registry observer \<Rightarrow> frame list \<Rightarrow> nat \<Rightarrow> registry state \<Rightarrow> (error + frame) \<times> registry state" where
  "getframe_obs obs frames n st =
     (if n < length frames then (Inr (frames ! n), st)
      else raise_error obs (ValueError ''call stack is not deep enough'') st)"

text \<open>\<^verbatim>\<open>f_globals[key]\<close> raises \<^verbatim>\<open>KeyError\<close> on a missing key.\<close>

definition global_obs ::
  "registry observer \<Rightarrow> frame \<Rightarrow> string \<Rightarrow> registry state \<Rightarrow> (error + pyval) \<times> registry state" where
  "global_obs obs fr key st =
     (case map_of (f_globals fr) key of
        None \<Rightarrow> raise_error obs (KeyError key) st
      | Some v \<Rightarrow> (Inr v, st))"

text \<open>
  \<^verbatim>\<open>db._NODE_CLASS_REGISTRY[label_set]\<close> raises \<^verbatim>\<open>KeyError\<close> on a label set that is not
  bound; the label set here is the singleton of the relation type, which names the error.
\<close>

definition registry_get ::
  "registry observer \<Rightarrow> string \<Rightarrow> registry state \<Rightarrow> (error + pycls) \<times> registry state" where
  "registry_get obs rel_type st =
     (case db st {rel_type} of
        None \<Rightarrow> raise_error obs (KeyError rel_type) st
      | Some c \<Rightarrow> (Inr c, st))"

definition is_KeyError :: "error \<Rightarrow> bool" where
  "is_KeyError e = (case e of KeyError _ \<Rightarrow> True | _ \<Rightarrow> False)"

text \<open>Lines 467 to 473: the body of the \<^verbatim>\<open>try\<close>.\<close>

definition register_try ::
  "registry observer \<Rightarrow> string \<Rightarrow> rel_model \<Rightarrow> registry state \<Rightarrow> (error + unit) \<times> registry state" where
  "register_try obs rel_type m st =
     (case registry_get obs rel_type st of
        (Inl e, st1) \<Rightarrow> (Inl e, st1)
      | (Inr model_from_registry, st1) \<Rightarrow>
          if \<not> issubclass (rm_class m) model_from_registry then
            (let is_parent = issubclass model_from_registry (rm_class m) in
             if is_direct_subclass (rm_class m) StructuredRel \<and> \<not> is_parent
             then raise_error obs (RelationshipClassRedefined rel_type (db st1) (rm_class m)) st1
             else (Inr (), st1))
          else (Inr (), st1\<lparr>db := (db st1)({rel_type} \<mapsto> rm_class m)\<rparr>))"

text \<open>
  Lines 458 to 476: the registration of the edge-property class under
  \<^verbatim>\<open>frozenset([relation_type])\<close>, with \<^verbatim>\<open>except KeyError\<close> around the body.
\<close>

definition register_model_obs ::
  "registry observer \<Rightarrow> string \<Rightarrow> rel_model option \<Rightarrow> registry state
     \<Rightarrow> (error + unit) \<times> registry state" where
  "register_model_obs obs rel_type mdl st =
     (case mdl of
        None \<Rightarrow> (Inr (), st)
      | Some m \<Rightarrow>
          (case register_try obs rel_type m st of
             (Inl e, st1) \<Rightarrow>
               if is_KeyError e
               then (Inr (), st1\<lparr>db := (db st1)({rel_type} \<mapsto> rm_class m)\<rparr>)
               else (Inl e, st1)
           | (Inr u, st1) \<Rightarrow> (Inr u, st1)))"

text \<open>
  \<^verbatim>\<open>RelationshipDefinition.__init__(relation_type, cls_name, direction, manager, model)\<close>,
  called with the stack \<open>frames\<close>.
\<close>

definition RelationshipDefinition_init_obs ::
  "registry observer \<Rightarrow> frame list \<Rightarrow> string \<Rightarrow> cls_ref \<Rightarrow> direction \<Rightarrow> pycls
     \<Rightarrow> rel_model option \<Rightarrow> registry state
     \<Rightarrow> (error + relationship_definition) \<times> registry state" where
  "RelationshipDefinition_init_obs obs frames rel_type cls_name dir mgr mdl st =
     (case getframe_obs obs frames (frame_number cls_name frames) st of
        (Inl e, st1) \<Rightarrow> (Inl e, st1)
      | (Inr fr, st1) \<Rightarrow>
          (case global_obs obs fr ''__name__'' st1 of
             (Inl e, st2) \<Rightarrow> (Inl e, st2)
           | (Inr mod_name, st2) \<Rightarrow>
               (let self = \<lparr>rd_module_name = mod_name,
                            rd_module_file = map_of (f_globals fr) ''__file__'',
                            rd_raw_class = cls_name,
                            rd_manager = mgr,
                            rd_definition =
                              \<lparr>relation_type = rel_type, direction = dir, model = mdl\<rparr>\<rparr>
                in case register_model_obs obs rel_type mdl st2 of
                     (Inl e, st3) \<Rightarrow> (Inl e, st3)
                   | (Inr _, st3) \<Rightarrow> (Inr self, st3))))"

definition RelationshipDefinition_init ::
  "frame list \<Rightarrow> string \<Rightarrow> cls_ref \<Rightarrow> direction \<Rightarrow> pycls \<Rightarrow> rel_model option \<Rightarrow> registry state
     \<Rightarrow> (error + relationship_definition) \<times> registry state" where
  "RelationshipDefinition_init = RelationshipDefinition_init_obs silent"

text \<open>The default cardinality class and the declaration helpers.\<close>

definition ZeroOrMore :: pycls where
  "ZeroOrMore = PyClass 4 ''ZeroOrMore'' [PyClass 3 ''RelationshipManager'' []]"

text \<open>
  \<^verbatim>\<open>_relate\<close>: \<^verbatim>\<open>isinstance(cls_name, (basestring, object))\<close> holds of every value, so the
  first check never raises.
\<close>

definition relate_obs ::
  "registry observer \<Rightarrow> frame list \<Rightarrow> cls_ref \<Rightarrow> direction \<Rightarrow> string \<Rightarrow> pycls
     \<Rightarrow> rel_model option \<Rightarrow> registry state
     \<Rightarrow> (error + relationship_definition) \<times> registry state" where
  "relate_obs obs frames cls_name dir rel_type cardinality mdl st =
     (case mdl of
        Some m \<Rightarrow>
          if \<not> issubclass (rm_class m) StructuredRel
          then raise_error obs (ValueError ''model must be a StructuredRel'') st
          else RelationshipDefinition_init_obs obs frames rel_type cls_name dir cardinality mdl st
      | None \<Rightarrow> RelationshipDefinition_init_obs obs frames rel_type cls_name dir cardinality mdl st)"

definition RelationshipTo_obs where
  "RelationshipTo_obs obs frames cls_name rel_type cardinality mdl st =
     relate_obs obs frames cls_name OUTGOING rel_type cardinality mdl st"



definition RelationshipTo where
  "RelationshipTo = RelationshipTo_obs silent"

subsection \<open>The session and the collaborators\<close>

text \<open>A \<^verbatim>\<open>Traversal(source, name, definition)\<close>.\<close>

record traversal =
  t_source :: node
  t_name :: string
  t_definition :: definition_dict

text \<open>
  The methods of the traversal and of the node set over it that the manager forwards to,
  and an argument of such a call.
\<close>

datatype proxy =
    ProxyGet | ProxyGetOrNone | ProxyFilter | ProxyOrderBy | ProxyExclude | ProxyContains
  | ProxyMatch | ProxyAll | ProxyValues | ProxyIter | ProxyLen | ProxyBool | ProxyNonzero
  | ProxyGetItem

datatype pyarg = ArgVal pyval | ArgNode node | ArgKeyword string pyval

text \<open>
  What the module imports and does not define: the session that runs a query for a node
  (rows of relationships and the meta line), the pattern builders \<^verbatim>\<open>_rel_helper\<close> and
  \<^verbatim>\<open>_rel_merge_helper\<close> of \<^verbatim>\<open>match\<close>, the class \<^verbatim>\<open>StructuredRel\<close> as an edge-property
  class, the \<^verbatim>\<open>__label__\<close> of a node class, the methods of \<^verbatim>\<open>Traversal\<close> and \<^verbatim>\<open>NodeSet\<close>,
  and \<^verbatim>\<open>all\<close> on the node set that \<^verbatim>\<open>filter\<close> returned.
\<close>

record 'db env =
  run_query ::
    "node \<Rightarrow> string \<Rightarrow> pydict option \<Rightarrow> 'db \<Rightarrow> (error + raw_rel list list \<times> string list) \<times> 'db"
  rel_helper :: "string \<Rightarrow> string \<Rightarrow> string \<Rightarrow> definition_dict \<Rightarrow> string"
  rel_merge_helper ::
    "string \<Rightarrow> string \<Rightarrow> string \<Rightarrow> (string \<times> string option) list option \<Rightarrow> definition_dict
       \<Rightarrow> string"
  structured_rel :: rel_model
  label_of :: "pycls \<Rightarrow> string"
  traversal_call :: "proxy \<Rightarrow> traversal \<Rightarrow> pyarg list \<Rightarrow> 'db \<Rightarrow> (error + pyval) \<times> 'db"
  nodeset_all :: "pyval \<Rightarrow> 'db \<Rightarrow> (error + pyval) \<times> 'db"

text \<open>
  Modelled from the spec: \<^verbatim>\<open>_pre_action_check\<close> of the node class (module \<^verbatim>\<open>core\<close>),
  "require the source node to be persisted (has a stable identity) and not deleted;
  violating this fails fast". The spec names neither the class of the error nor its
  message; no property below depends on them.
\<close>

definition pre_action_check_obs ::
  "'db observer \<Rightarrow> node \<Rightarrow> string \<Rightarrow> 'db state \<Rightarrow> (error + unit) \<times> 'db state" where
  "pre_action_check_obs obs n action st =
     (if n_deleted n then raise_error obs (ValueError (action @ ''() attempted on deleted node'')) st
      else if n_id n = None
      then raise_error obs (ValueError (action @ ''() attempted on unsaved node'')) st
      else (Inr (), st))"

text \<open>
  Modelled from the spec: \<^verbatim>\<open>cypher\<close> of the node class (module \<^verbatim>\<open>core\<close>). Every query of
  this module refers to \<^verbatim>\<open>$self\<close> and no parameter map of the module holds it: the node
  binds it from its own identity ("exposes a stable identity"), which an action on a
  node that is not persisted, or is deleted, cannot do; it raises before the session is
  reached. Otherwise the session runs the query for the node, and the call is recorded.
\<close>

definition cypher_obs ::
  "'db observer \<Rightarrow> 'db env \<Rightarrow> node \<Rightarrow> string \<Rightarrow> pydict option \<Rightarrow> 'db state
     \<Rightarrow> (error + raw_rel list list \<times> string list) \<times> 'db state" where
  "cypher_obs obs env src q params st =
     (case pre_action_check_obs obs src ''cypher'' st of
        (Inl e, st1) \<Rightarrow> (Inl e, st1)
      | (Inr _, st1) \<Rightarrow>
          (case run_query env src q params (db st1) of
             (r, d) \<Rightarrow> (r, \<lparr>db = d, trace = trace st1 @ [Cypher q params (failure r)]\<rparr>)))"

definition collab :: "string \<Rightarrow> error + 'a \<Rightarrow> 'db state \<Rightarrow> (error + 'a) \<times> 'db state" where
  "collab what r st = (r, st\<lparr>trace := trace st @ [Collab what (failure r)]\<rparr>)"

text \<open>\<^verbatim>\<open>rows[0][0]\<close>: each index raises \<^verbatim>\<open>IndexError\<close> on an empty list.\<close>

definition first_cell_obs ::
  "'db observer \<Rightarrow> raw_rel list list \<Rightarrow> 'db state \<Rightarrow> (error + raw_rel) \<times> 'db state" where
  "first_cell_obs obs rows st =
     (case rows of
        [] \<Rightarrow> raise_error obs (IndexError ''list index out of range'') st
      | row # _ \<Rightarrow>
          (case row of
             [] \<Rightarrow> raise_error obs (IndexError ''list index out of range'') st
           | r # _ \<Rightarrow> (Inr r, st)))"

subsection \<open>The manager\<close>

record relationship_manager =
  self_source :: node
  self_source_class :: pycls
  self_name :: string
  self_definition :: definition_dict

definition RelationshipManager_init :: "node \<Rightarrow> string \<Rightarrow> definition_dict \<Rightarrow> relationship_manager" where
  "RelationshipManager_init src key dfn =
     \<lparr>self_source = src, self_source_class = n_class src, self_name = key,
      self_definition = dfn\<rparr>"

text \<open>The decorator \<^verbatim>\<open>check_source\<close>: the check, then the function.\<close>

definition check_source_obs ::
  "'db observer \<Rightarrow> string \<Rightarrow> (relationship_manager \<Rightarrow> 'db state \<Rightarrow> (error + 'a) \<times> 'db state)
     \<Rightarrow> relationship_manager \<Rightarrow> 'db state \<Rightarrow> (error + 'a) \<times> 'db state" where
  "check_source_obs obs fn_name fn self st =
     (case pre_action_check_obs obs (self_source self) (self_name self @ ''.'' @ fn_name) st of
        (Inl e, st1) \<Rightarrow> (Inl e, st1)
      | (Inr _, st1) \<Rightarrow> fn self st1)"

text \<open>\<^verbatim>\<open>_check_node\<close>; the \<^verbatim>\<open>repr\<close> of the node is left out of the message.\<close>

definition check_node_obs ::
  "'db observer \<Rightarrow> relationship_manager \<Rightarrow> node \<Rightarrow> 'db state \<Rightarrow> (error + unit) \<times> 'db state" where
  "check_node_obs obs self obj st =
     (if \<not> issubclass (n_class obj) (node_class (self_definition self))
      then raise_error obs
             (ValueError (''Expected node of class '' @ name_of (node_class (self_definition self))))
             st
      else if n_id obj = None
      then raise_error obs (ValueError ''Can't perform operation on unsaved node'') st
      else (Inr (), st))"

text \<open>\<^verbatim>\<open>node.id\<close> raises \<^verbatim>\<open>AttributeError\<close> on a node without the attribute.\<close>

definition id_of_obs :: "'db observer \<Rightarrow> node \<Rightarrow> 'db state \<Rightarrow> (error + int) \<times> 'db state" where
  "id_of_obs obs obj st =
     (case n_id obj of
        None \<Rightarrow> raise_error obs (AttributeError ''id'') st
      | Some i \<Rightarrow> (Inr i, st))"

text \<open>\<^verbatim>\<open>obj.__class__\<close>, for a node or for \<^verbatim>\<open>None\<close>.\<close>

definition class_of :: "node option \<Rightarrow> pycls" where
  "class_of obj = (case obj of None \<Rightarrow> NoneType | Some n \<Rightarrow> n_class n)"

definition set_start_end_cls ::
  "relationship_manager \<Rightarrow> rel_instance \<Rightarrow> node option \<Rightarrow> rel_instance" where
  "set_start_end_cls self rel_inst obj =
     (if direction (self_definition self) = INCOMING
      then rel_inst\<lparr>start_node_class := Some (class_of obj),
                    end_node_class := Some (self_source_class self)\<rparr>
      else rel_inst\<lparr>start_node_class := Some (self_source_class self),
                    end_node_class := Some (class_of obj)\<rparr>)"

subsection \<open>\<^verbatim>\<open>connect_helper\<close>\<close>

text \<open>The truth value of the \<^verbatim>\<open>properties\<close> argument: \<^verbatim>\<open>None\<close> and \<^verbatim>\<open>{}\<close> are false.\<close>

definition truthy :: "pydict option \<Rightarrow> bool" where
  "truthy properties = (case properties of None \<Rightarrow> False | Some d \<Rightarrow> d \<noteq> [])"

text \<open>
  The loop over the deflated items: \<^verbatim>\<open>rp[p]\<close> is the placeholder or \<^verbatim>\<open>None\<close>,
  \<^verbatim>\<open>params[p]\<close> is the value.
\<close>

definition bind_item ::
  "string \<times> pyval \<Rightarrow> (string \<times> string option) list \<times> pydict
     \<Rightarrow> (string \<times> string option) list \<times> pydict" where
  "bind_item item acc =
     (case item of (p, v) \<Rightarrow>
        (case acc of (rp, params) \<Rightarrow>
           (AList.update p (if v \<noteq> PNone then Some (''$'' @ p) else None) rp,
            AList.update p v params)))"

definition bind_items :: "pydict \<Rightarrow> (string \<times> string option) list \<times> pydict" where
  "bind_items deflated = fold bind_item deflated ([], [])"

text \<open>
  Lines 85 to 102: with a model, the throw-away instance, the placeholders and the
  \<^verbatim>\<open>pre_save\<close> hook; without one, \<^verbatim>\<open>rp\<close> stays \<^verbatim>\<open>None\<close> and \<^verbatim>\<open>params\<close> empty.
\<close>

definition prepare_properties ::
  "relationship_manager \<Rightarrow> pydict option \<Rightarrow> 'db state
     \<Rightarrow> (error + (string \<times> string option) list option \<times> pydict) \<times> 'db state" where
  "prepare_properties self properties st =
     (case model (self_definition self) of
        None \<Rightarrow> (Inr (None, []), st)
      | Some rel_model \<Rightarrow>
          (let tmp = (if truthy properties then instantiate rel_model (the properties)
                      else instantiate rel_model [])
           in case collab ''deflate'' (rm_deflate rel_model (inst_properties tmp)) st of
                (Inl e, st1) \<Rightarrow> (Inl e, st1)
              | (Inr deflated, st1) \<Rightarrow>
                  (case bind_items deflated of (rp, params) \<Rightarrow>
                     (case rm_pre_save rel_model of
                        None \<Rightarrow> (Inr (Some rp, params), st1)
                      | Some pre_save \<Rightarrow>
                          (case collab ''pre_save'' (pre_save tmp) st1 of
                             (Inl e, st2) \<Rightarrow> (Inl e, st2)
                           | (Inr _, st2) \<Rightarrow> (Inr (Some rp, params), st2))))))"

text \<open>Lines 107 to 111: the target, by identity or by the list of keys.\<close>

definition bind_target_obs ::
  "'db observer \<Rightarrow> node option \<Rightarrow> string list option \<Rightarrow> pydict \<Rightarrow> 'db state
     \<Rightarrow> (error + pydict) \<times> 'db state" where
  "bind_target_obs obs nd nodes params st =
     (case nd of
        Some n \<Rightarrow>
          (case id_of_obs obs n st of
             (Inl e, st1) \<Rightarrow> (Inl e, st1)
           | (Inr i, st1) \<Rightarrow> (Inr (AList.update ''them'' (PInt i) params), st1))
      | None \<Rightarrow>
          (Inr (AList.update ''uuids''
                  (case nodes of None \<Rightarrow> PNone | Some us \<Rightarrow> PList (map PStr us))
                  (AList.update ''them'' (PStr ''uuid'') params)),
           st))"

datatype connect_result = CTrue | CRel rel_instance

text \<open>
  Lines 117 to 123: the query with \<^verbatim>\<open>RETURN r\<close>, the first cell of the answer inflated,
  the back-references and the \<^verbatim>\<open>post_save\<close> hook.
\<close>

definition read_back_obs ::
  "'db observer \<Rightarrow> 'db env \<Rightarrow> relationship_manager \<Rightarrow> rel_model \<Rightarrow> string \<Rightarrow> pydict
     \<Rightarrow> node option \<Rightarrow> 'db state \<Rightarrow> (error + connect_result) \<times> 'db state" where
  "read_back_obs obs env self rel_model q params nd st =
     (case cypher_obs obs env (self_source self) (q @ '' RETURN r'') (Some params) st of
        (Inl e, st1) \<Rightarrow> (Inl e, st1)
      | (Inr (rows, meta), st1) \<Rightarrow>
          (case first_cell_obs obs rows st1 of
             (Inl e, st2) \<Rightarrow> (Inl e, st2)
           | (Inr rel, st2) \<Rightarrow>
               (case collab ''inflate'' (rm_inflate rel_model rel) st2 of
                  (Inl e, st3) \<Rightarrow> (Inl e, st3)
                | (Inr inflated, st3) \<Rightarrow>
                    (let rel_inst = set_start_end_cls self inflated nd
                     in case rm_post_save rel_model of
                          None \<Rightarrow> (Inr (CRel rel_inst), st3)
                        | Some post_save \<Rightarrow>
                            (case collab ''post_save'' (post_save rel_inst) st3 of
                               (Inl e, st4) \<Rightarrow> (Inl e, st4)
                             | (Inr _, st4) \<Rightarrow> (Inr (CRel rel_inst), st4))))))"

definition connect_helper_obs ::
  "'db observer \<Rightarrow> 'db env \<Rightarrow> relationship_manager \<Rightarrow> string \<Rightarrow> pydict option \<Rightarrow> node option
     \<Rightarrow> string list option \<Rightarrow> 'db state \<Rightarrow> (error + connect_result) \<times> 'db state" where
  "connect_helper_obs obs env self query properties nd nodes st =
     (if model (self_definition self) = None \<and> truthy properties
      then raise_error obs
             (NotImplementedError
                ''Relationship properties without using a relationship model is no longer supported.'')
             st
      else
        (case prepare_properties self properties st of
           (Inl e, st1) \<Rightarrow> (Inl e, st1)
         | (Inr (rp, params), st1) \<Rightarrow>
             (let new_rel = rel_merge_helper env ''us'' ''them'' ''r'' rp (self_definition self);
                  q = query @ new_rel
              in case bind_target_obs obs nd nodes params st1 of
                   (Inl e, st2) \<Rightarrow> (Inl e, st2)
                 | (Inr params', st2) \<Rightarrow>
                     (case model (self_definition self) of
                        None \<Rightarrow>
                          (case cypher_obs obs env (self_source self) q (Some params') st2 of
                             (Inl e, st3) \<Rightarrow> (Inl e, st3)
                           | (Inr _, st3) \<Rightarrow> (Inr CTrue, st3))
                      | Some rel_model \<Rightarrow> read_back_obs obs env self rel_model q params' nd st2))))"

subsection \<open>The mutation operations\<close>

text \<open>The head of the query of \<^verbatim>\<open>connect\<close>, up to its \<^verbatim>\<open>MERGE\<close>.\<close>

definition connect_query :: "relationship_manager \<Rightarrow> node \<Rightarrow> string" where
  "connect_query self nd =
     (let source_label = name_of (n_class (self_source self));
          dest_label = name_of (n_class nd)
      in ''MATCH (them:'' @ dest_label @ ''), (us:'' @ source_label
         @ '') WHERE id(them)=$them and id(us)=$self '' @ ''MERGE'')"

definition connect_obs ::
  "'db observer \<Rightarrow> 'db env \<Rightarrow> relationship_manager \<Rightarrow> node \<Rightarrow> pydict option \<Rightarrow> 'db state
     \<Rightarrow> (error + connect_result) \<times> 'db state" where
  "connect_obs obs env self nd properties =
     check_source_obs obs ''connect''
       (\<lambda>self st.
          case check_node_obs obs self nd st of
            (Inl e, st1) \<Rightarrow> (Inl e, st1)
          | (Inr _, st1) \<Rightarrow>
              (let q = connect_query self nd
               in connect_helper_obs obs env self q properties (Some nd) None st1))
       self"

text \<open>A \<^verbatim>\<open>UUID\<close>, and \<^verbatim>\<open>str\<close> of it.\<close>

datatype uuid = UUID string

fun str_uuid :: "uuid \<Rightarrow> string" where
  "str_uuid (UUID s) = s"

text \<open>\<^verbatim>\<open>bulk_disconnect\<close> is the one mutation that carries no \<^verbatim>\<open>@check_source\<close>.\<close>

definition bulk_disconnect_obs ::
  "'db observer \<Rightarrow> 'db env \<Rightarrow> relationship_manager \<Rightarrow> uuid list \<Rightarrow> 'db state
     \<Rightarrow> (error + unit) \<times> 'db state" where
  "bulk_disconnect_obs obs env self nodes st =
     (if nodes \<noteq> [] then
        (let nodes' = map str_uuid nodes;
             rel = rel_helper env ''a'' ''b'' ''r'' (self_definition self);
             q = ''MATCH (a), (b) WHERE id(a)=$self and b.uuid in $them '' @ ''MATCH '' @ rel
                 @ '' DELETE r'';
             st1 = st\<lparr>trace := trace st @ [Print q nodes']\<rparr>
         in case cypher_obs obs env (self_source self) q
                   (Some [(''them'', PList (map PStr nodes'))]) st1 of
              (Inl e, st2) \<Rightarrow> (Inl e, st2)
            | (Inr _, st2) \<Rightarrow> (Inr (), st2))
      else (Inr (), st))"

definition bulk_connect_obs ::
  "'db observer \<Rightarrow> 'db env \<Rightarrow> relationship_manager \<Rightarrow> uuid list \<Rightarrow> string \<Rightarrow> pydict option
     \<Rightarrow> 'db state \<Rightarrow> (error + connect_result option) \<times> 'db state" where
  "bulk_connect_obs obs env self nodes label properties =
     check_source_obs obs ''bulk_connect''
       (\<lambda>self st.
          if nodes \<noteq> [] then
            (let nodes' = map str_uuid nodes;
                 source_label = name_of (n_class (self_source self));
                 q = ''UNWIND $uuids as uuid MATCH (them:'' @ label @ ''), (us:'' @ source_label
                     @ '') WHERE them.uuid=uuid '' @ ''and id(us)=$self MERGE''
             in case connect_helper_obs obs env self q properties None (Some nodes') st of
                  (Inl e, st1) \<Rightarrow> (Inl e, st1)
                | (Inr r, st1) \<Rightarrow> (Inr (Some r), st1))
          else (Inr None, st))
       self"

definition disconnect_obs ::
  "'db observer \<Rightarrow> 'db env \<Rightarrow> relationship_manager \<Rightarrow> node \<Rightarrow> 'db state
     \<Rightarrow> (error + unit) \<times> 'db state" where
  "disconnect_obs obs env self nd =
     check_source_obs obs ''disconnect''
       (\<lambda>self st.
          (let rel = rel_helper env ''a'' ''b'' ''r'' (self_definition self);
               q = ''MATCH (a), (b) WHERE id(a)=$self and id(b)=$them '' @ ''MATCH '' @ rel
                   @ '' DELETE r''
           in case id_of_obs obs nd st of
                (Inl e, st1) \<Rightarrow> (Inl e, st1)
              | (Inr them, st1) \<Rightarrow>
                  (case cypher_obs obs env (self_source self) q (Some [(''them'', PInt them)]) st1 of
                     (Inl e, st2) \<Rightarrow> (Inl e, st2)
                   | (Inr _, st2) \<Rightarrow> (Inr (), st2))))
       self"

definition disconnect_all_obs ::
  "'db observer \<Rightarrow> 'db env \<Rightarrow> relationship_manager \<Rightarrow> 'db state \<Rightarrow> (error + unit) \<times> 'db state" where
  "disconnect_all_obs obs env =
     check_source_obs obs ''disconnect_all''
       (\<lambda>self st.
          (let rhs = ''b:'' @ label_of env (node_class (self_definition self));
               rel = rel_helper env ''a'' rhs ''r'' (self_definition self);
               q = ''MATCH (a) WHERE id(a)=$self MATCH '' @ rel @ '' DELETE r''
           in case cypher_obs obs env (self_source self) q None st of
                (Inl e, st1) \<Rightarrow> (Inl e, st1)
              | (Inr _, st1) \<Rightarrow> (Inr (), st1)))"

definition replace_obs ::
  "'db observer \<Rightarrow> 'db env \<Rightarrow> relationship_manager \<Rightarrow> node \<Rightarrow> pydict option \<Rightarrow> 'db state
     \<Rightarrow> (error + unit) \<times> 'db state" where
  "replace_obs obs env self nd properties =
     check_source_obs obs ''replace''
       (\<lambda>self st.
          case disconnect_all_obs obs env self st of
            (Inl e, st1) \<Rightarrow> (Inl e, st1)
          | (Inr _, st1) \<Rightarrow>
              (case connect_obs obs env self nd properties st1 of
                 (Inl e, st2) \<Rightarrow> (Inl e, st2)
               | (Inr _, st2) \<Rightarrow> (Inr (), st2)))
       self"

text \<open>The loop of \<^verbatim>\<open>reconnect\<close> that copies the properties: one \<^verbatim>\<open>SET\<close> for each key.\<close>

definition set_clause :: "string \<Rightarrow> string" where
  "set_clause p = '' SET r2.'' @ p @ '' = r.'' @ p"

definition copy_properties :: "string list \<Rightarrow> string \<Rightarrow> string" where
  "copy_properties existing_properties q = fold (\<lambda>p q. q @ set_clause p) existing_properties q"

definition reconnect_read_query :: "'db env \<Rightarrow> relationship_manager \<Rightarrow> string" where
  "reconnect_read_query env self =
     (let old_rel = rel_helper env ''us'' ''old'' ''r'' (self_definition self)
      in ''MATCH (us), (old) WHERE id(us)=$self and id(old)=$old '' @ ''MATCH '' @ old_rel
         @ '' RETURN r'')"

text \<open>Lines 267 to 277: the query that creates the new edge and removes the old one.\<close>

definition reconnect_query :: "'db env \<Rightarrow> relationship_manager \<Rightarrow> string list \<Rightarrow> string" where
  "reconnect_query env self existing_properties =
     (let old_rel = rel_helper env ''us'' ''old'' ''r'' (self_definition self);
          new_rel = rel_merge_helper env ''us'' ''new'' ''r2'' None (self_definition self);
          q0 = ''MATCH (us), (old), (new) ''
               @ ''WHERE id(us)=$self and id(old)=$old and id(new)=$new ''
               @ ''MATCH '' @ old_rel;
          q1 = q0 @ '' MERGE'' @ new_rel;
          q2 = copy_properties existing_properties q1
      in q2 @ '' WITH r DELETE r'')"

definition reconnect_obs ::
  "'db observer \<Rightarrow> 'db env \<Rightarrow> relationship_manager \<Rightarrow> node \<Rightarrow> node \<Rightarrow> 'db state
     \<Rightarrow> (error + unit) \<times> 'db state" where
  "reconnect_obs obs env self old_node new_node =
     check_source_obs obs ''reconnect''
       (\<lambda>self st.
          case check_node_obs obs self old_node st of
            (Inl e, st1) \<Rightarrow> (Inl e, st1)
          | (Inr _, st1) \<Rightarrow>
          (case check_node_obs obs self new_node st1 of
            (Inl e, st2) \<Rightarrow> (Inl e, st2)
          | (Inr _, st2) \<Rightarrow>
          if n_id old_node = n_id new_node then (Inr (), st2)
          else
            (case id_of_obs obs old_node st2 of
               (Inl e, st3) \<Rightarrow> (Inl e, st3)
             | (Inr old_id, st3) \<Rightarrow>
             (case cypher_obs obs env (self_source self) (reconnect_read_query env self)
                     (Some [(''old'', PInt old_id)]) st3 of
                (Inl e, st4) \<Rightarrow> (Inl e, st4)
              | (Inr (result, meta), st4) \<Rightarrow>
                  if result \<noteq> [] then
                    (case first_cell_obs obs result st4 of
                       (Inl e, st5) \<Rightarrow> (Inl e, st5)
                     | (Inr r, st5) \<Rightarrow>
                         (let node_properties = get_node_properties r;
                              existing_properties = map fst node_properties;
                              q = reconnect_query env self existing_properties
                          in case id_of_obs obs new_node st5 of
                               (Inl e, st6) \<Rightarrow> (Inl e, st6)
                             | (Inr new_id, st6) \<Rightarrow>
                                 (case cypher_obs obs env (self_source self) q
                                         (Some [(''old'', PInt old_id), (''new'', PInt new_id)])
                                         st6 of
                                    (Inl e, st7) \<Rightarrow> (Inl e, st7)
                                  | (Inr _, st7) \<Rightarrow> (Inr (), st7))))
                  else raise_error obs (NotConnected ''reconnect'' (self_source self) old_node)
                         st4))))
       self"

subsection \<open>The read operations\<close>

definition model_or_base :: "'db env \<Rightarrow> relationship_manager \<Rightarrow> rel_model" where
  "model_or_base env self =
     (case model (self_definition self) of Some m \<Rightarrow> m | None \<Rightarrow> structured_rel env)"

definition relationship_query :: "'db env \<Rightarrow> relationship_manager \<Rightarrow> string" where
  "relationship_query env self =
     (let my_rel = rel_helper env ''us'' ''them'' ''r'' (self_definition self)
      in ''MATCH '' @ my_rel @ '' WHERE id(them)=$them and id(us)=$self RETURN r LIMIT 1'')"

definition relationship_obs ::
  "'db observer \<Rightarrow> 'db env \<Rightarrow> relationship_manager \<Rightarrow> node \<Rightarrow> 'db state
     \<Rightarrow> (error + rel_instance option) \<times> 'db state" where
  "relationship_obs obs env self nd =
     check_source_obs obs ''relationship''
       (\<lambda>self st.
          case check_node_obs obs self nd st of
            (Inl e, st1) \<Rightarrow> (Inl e, st1)
          | (Inr _, st1) \<Rightarrow>
              (let q = relationship_query env self
               in case id_of_obs obs nd st1 of
                    (Inl e, st2) \<Rightarrow> (Inl e, st2)
                  | (Inr them, st2) \<Rightarrow>
                      (case cypher_obs obs env (self_source self) q
                              (Some [(''them'', PInt them)]) st2 of
                         (Inl e, st3) \<Rightarrow> (Inl e, st3)
                       | (Inr (rels, meta), st3) \<Rightarrow>
                           if rels = [] then (Inr None, st3)
                           else
                             (case first_cell_obs obs rels st3 of
                                (Inl e, st4) \<Rightarrow> (Inl e, st4)
                              | (Inr r, st4) \<Rightarrow>
                                  (case collab ''inflate''
                                          (rm_inflate (model_or_base env self) r) st4 of
                                     (Inl e, st5) \<Rightarrow> (Inl e, st5)
                                   | (Inr inflated, st5) \<Rightarrow>
                                       (Inr (Some (set_start_end_cls self inflated (Some nd))),
                                        st5))))))
       self"

text \<open>The list comprehension of \<^verbatim>\<open>all_relationships\<close>, row by row.\<close>

fun inflate_rows_obs ::
  "'db observer \<Rightarrow> relationship_manager \<Rightarrow> rel_model \<Rightarrow> node \<Rightarrow> raw_rel list list \<Rightarrow> 'db state
     \<Rightarrow> (error + rel_instance list) \<times> 'db state" where
  "inflate_rows_obs obs self rel_model nd [] st = (Inr [], st)"
| "inflate_rows_obs obs self rel_model nd (rel # rels) st =
     (case rel of
        [] \<Rightarrow> raise_error obs (IndexError ''list index out of range'') st
      | r # _ \<Rightarrow>
          (case collab ''inflate'' (rm_inflate rel_model r) st of
             (Inl e, st1) \<Rightarrow> (Inl e, st1)
           | (Inr inflated, st1) \<Rightarrow>
               (case inflate_rows_obs obs self rel_model nd rels st1 of
                  (Inl e, st2) \<Rightarrow> (Inl e, st2)
                | (Inr rest, st2) \<Rightarrow>
                    (Inr (set_start_end_cls self inflated (Some nd) # rest), st2))))"

definition all_relationships_query :: "'db env \<Rightarrow> relationship_manager \<Rightarrow> string" where
  "all_relationships_query env self =
     (let my_rel = rel_helper env ''us'' ''them'' ''r'' (self_definition self)
      in ''MATCH '' @ my_rel @ '' WHERE id(them)=$them and id(us)=$self RETURN r '')"

definition all_relationships_obs ::
  "'db observer \<Rightarrow> 'db env \<Rightarrow> relationship_manager \<Rightarrow> node \<Rightarrow> 'db state
     \<Rightarrow> (error + rel_instance list) \<times> 'db state" where
  "all_relationships_obs obs env self nd =
     check_source_obs obs ''all_relationships''
       (\<lambda>self st.
          case check_node_obs obs self nd st of
            (Inl e, st1) \<Rightarrow> (Inl e, st1)
          | (Inr _, st1) \<Rightarrow>
              (let q = all_relationships_query env self
               in case id_of_obs obs nd st1 of
                    (Inl e, st2) \<Rightarrow> (Inl e, st2)
                  | (Inr them, st2) \<Rightarrow>
                      (case cypher_obs obs env (self_source self) q
                              (Some [(''them'', PInt them)]) st2 of
                         (Inl e, st3) \<Rightarrow> (Inl e, st3)
                       | (Inr (rels, meta), st3) \<Rightarrow>
                           if rels = [] then (Inr [], st3)
                           else inflate_rows_obs obs self (model_or_base env self) nd rels st3)))
       self"

subsection \<open>The traversal proxy\<close>








subsection \<open>The operations of the module\<close>

text \<open>Each operation is its function under the observer that does nothing.\<close>

definition connect where
  "connect = connect_obs silent"

definition bulk_connect where
  "bulk_connect = bulk_connect_obs silent"

definition bulk_disconnect where
  "bulk_disconnect = bulk_disconnect_obs silent"

definition disconnect where
  "disconnect = disconnect_obs silent"

definition disconnect_all where
  "disconnect_all = disconnect_all_obs silent"

definition replace where
  "replace = replace_obs silent"

definition reconnect where
  "reconnect = reconnect_obs silent"

definition relationship where
  "relationship = relationship_obs silent"

definition all_relationships where
  "all_relationships = all_relationships_obs silent"



subsection \<open>Notions the properties are stated with\<close>

text \<open>The source precondition of the spec: the node has an identity and is not deleted.\<close>

definition persisted :: "node \<Rightarrow> bool" where
  "persisted n = (\<not> n_deleted n \<and> n_id n \<noteq> None)"

text \<open>A node that passes \<^verbatim>\<open>_check_node\<close>: of the declared endpoint class, and saved.\<close>

definition valid_node :: "relationship_manager \<Rightarrow> node \<Rightarrow> bool" where
  "valid_node self obj =
     (issubclass (n_class obj) (node_class (self_definition self)) \<and> n_id obj \<noteq> None)"

text \<open>The events an operation added to the trace, and the error an event carries.\<close>

definition new_events :: "'db state \<Rightarrow> 'db state \<Rightarrow> event list" where
  "new_events st st' = drop (length (trace st)) (trace st')"


fun is_query :: "event \<Rightarrow> bool" where
  "is_query (Cypher q params e) = True"
| "is_query (Collab what e) = False"
| "is_query (Print q nodes) = False"
| "is_query (Raised e) = False"










text \<open>The back-references \<^verbatim>\<open>_set_start_end_cls\<close> is to leave on an instance.\<close>

definition oriented :: "direction \<Rightarrow> pycls \<Rightarrow> pycls \<Rightarrow> rel_instance \<Rightarrow> bool" where
  "oriented dir source_cls target_cls inst =
     (if dir = INCOMING
      then start_node_class inst = Some target_cls \<and> end_node_class inst = Some source_cls
      else start_node_class inst = Some source_cls \<and> end_node_class inst = Some target_cls)"

subsection \<open>Sample classes, nodes and collaborators\<close>

definition Person :: pycls where
  "Person = PyClass 10 ''Person'' []"

definition Company :: pycls where
  "Company = PyClass 11 ''Company'' []"

definition alice :: node where
  "alice = \<lparr>n_class = Person, n_id = Some 1, n_deleted = False\<rparr>"

definition bob :: node where
  "bob = \<lparr>n_class = Person, n_id = Some 2, n_deleted = False\<rparr>"

definition carol :: node where
  "carol = \<lparr>n_class = Person, n_id = Some 3, n_deleted = False\<rparr>"

definition unsaved :: node where
  "unsaved = \<lparr>n_class = Person, n_id = None, n_deleted = False\<rparr>"

definition BaseRel :: pycls where
  "BaseRel = PyClass 20 ''BaseRel'' [StructuredRel]"

definition FriendRel :: pycls where
  "FriendRel = PyClass 21 ''FriendRel'' [BaseRel]"

definition CloseFriendRel :: pycls where
  "CloseFriendRel = PyClass 22 ''CloseFriendRel'' [FriendRel]"

definition RivalRel :: pycls where
  "RivalRel = PyClass 23 ''RivalRel'' [BaseRel]"

definition WorksAtRel :: pycls where
  "WorksAtRel = PyClass 24 ''WorksAtRel'' [StructuredRel]"

text \<open>A second class named \<^verbatim>\<open>WorksAtRel\<close>, with the same bases, declared in another module.\<close>

definition WorksAtRel_elsewhere :: pycls where
  "WorksAtRel_elsewhere = PyClass 25 ''WorksAtRel'' [StructuredRel]"

definition sample_inflate :: "pycls \<Rightarrow> raw_rel \<Rightarrow> error + rel_instance" where
  "sample_inflate c r =
     Inr \<lparr>inst_class = c, inst_properties = rel_properties r,
          start_node_class = None, end_node_class = None\<rparr>"

definition sample_model :: "pycls \<Rightarrow> rel_model" where
  "sample_model c =
     \<lparr>rm_class = c,
      rm_declared = [(''since'', PInt 2000), (''note'', PNone)],
      rm_deflate = (\<lambda>ps. Inr ps),
      rm_inflate = sample_inflate c,
      rm_pre_save = None,
      rm_post_save = None\<rparr>"

definition arrow :: "direction \<Rightarrow> string \<Rightarrow> string" where
  "arrow dir body =
     (case dir of
        OUTGOING \<Rightarrow> ''-'' @ body @ ''->''
      | INCOMING \<Rightarrow> ''<-'' @ body @ ''-''
      | EITHER \<Rightarrow> ''-'' @ body @ ''-'')"

definition sample_rel_helper :: "string \<Rightarrow> string \<Rightarrow> string \<Rightarrow> definition_dict \<Rightarrow> string" where
  "sample_rel_helper lhs rhs ident dfn =
     ''('' @ lhs @ '')'' @ arrow (direction dfn) (''['' @ ident @ '':'' @ relation_type dfn @ '']'')
     @ ''('' @ rhs @ '')''"

definition sample_rel_merge_helper ::
  "string \<Rightarrow> string \<Rightarrow> string \<Rightarrow> (string \<times> string option) list option \<Rightarrow> definition_dict
     \<Rightarrow> string" where
  "sample_rel_merge_helper lhs rhs ident rp dfn =
     ''('' @ lhs @ '')''
     @ arrow (direction dfn)
         (''['' @ ident @ '':'' @ relation_type dfn
          @ concat (map (\<lambda>(k, v). case v of None \<Rightarrow> '' '' @ k @ '': null''
                                          | Some ph \<Rightarrow> '' '' @ k @ '': '' @ ph)
                     (case rp of None \<Rightarrow> [] | Some d \<Rightarrow> d))
          @ '']'')
     @ ''('' @ rhs @ '')''"

text \<open>
  A session over a stored answer: every query returns the rows the database holds and
  leaves them as they are; the traversal holds no node. The failing session raises on
  every query and every call.
\<close>

definition sample_env :: "raw_rel list list env" where
  "sample_env =
     \<lparr>run_query = (\<lambda>src q params d. (Inr (d, [''r'']), d)),
      rel_helper = sample_rel_helper,
      rel_merge_helper = sample_rel_merge_helper,
      structured_rel = sample_model StructuredRel,
      label_of = name_of,
      traversal_call =
        (\<lambda>m t args d.
           if m = ProxyGetItem then (Inl (IndexError ''index out of range''), d)
           else (Inr (PList []), d)),
      nodeset_all = (\<lambda>node_set d. (Inr (PList []), d))\<rparr>"


definition friends :: definition_dict where
  "friends =
     \<lparr>relation_type = ''FRIEND'', direction = OUTGOING, model = Some (sample_model FriendRel),
      node_class = Person\<rparr>"

definition followers :: definition_dict where
  "followers =
     \<lparr>relation_type = ''FOLLOWS'', direction = INCOMING, model = None, node_class = Person\<rparr>"

definition alice_friends :: relationship_manager where
  "alice_friends = RelationshipManager_init alice ''friends'' friends"

definition alice_followers :: relationship_manager where
  "alice_followers = RelationshipManager_init alice ''followers'' followers"

definition unsaved_followers :: relationship_manager where
  "unsaved_followers = RelationshipManager_init unsaved ''followers'' followers"

definition acme :: node where
  "acme = \<lparr>n_class = Company, n_id = Some 7, n_deleted = False\<rparr>"

definition employers :: definition_dict where
  "employers =
     \<lparr>relation_type = ''EMPLOYS'', direction = INCOMING, model = Some (sample_model WorksAtRel),
      node_class = Company\<rparr>"

definition alice_employers :: relationship_manager where
  "alice_employers = RelationshipManager_init alice ''employers'' employers"

definition since_2020 :: raw_rel where
  "since_2020 = \<lparr>rel_properties = [(''since'', PInt 2020), (''note'', PStr ''met at work'')]\<rparr>"

definition one_edge :: "raw_rel list list state" where
  "one_edge = \<lparr>db = [[since_2020]], trace = []\<rparr>"

definition no_edge :: "raw_rel list list state" where
  "no_edge = \<lparr>db = [], trace = []\<rparr>"

definition module_frames :: "frame list" where
  "module_frames =
     [\<lparr>f_globals = [(''__name__'', PStr ''neomodel.relationship_manager'')]\<rparr>,
      \<lparr>f_globals = [(''__name__'', PStr ''myapp.models''), (''__file__'', PStr ''myapp/models.py''),
                    (''Person'', PNone)]\<rparr>]"

text \<open>
  The stack of a declaration made at the top level of a script, through \<^verbatim>\<open>RelationshipTo\<close>
  and with the class itself as first argument: \<^verbatim>\<open>__init__\<close>, \<^verbatim>\<open>_relate\<close>,
  \<^verbatim>\<open>RelationshipTo\<close>, the script.
\<close>

definition script_frames :: "frame list" where
  "script_frames =
     [\<lparr>f_globals = [(''__name__'', PStr ''neomodel.relationship_manager'')]\<rparr>,
      \<lparr>f_globals = [(''__name__'', PStr ''neomodel.relationship_manager'')]\<rparr>,
      \<lparr>f_globals = [(''__name__'', PStr ''neomodel.relationship_manager'')]\<rparr>,
      \<lparr>f_globals = [(''__name__'', PStr ''__main__''), (''__file__'', PStr ''models.py''),
                    (''Person'', PNone)]\<rparr>]"

definition friend_registry :: "registry state" where
  "friend_registry = \<lparr>db = [{''FRIEND''} \<mapsto> FriendRel], trace = []\<rparr>"

definition works_at_registry :: "registry state" where
  "works_at_registry = \<lparr>db = [{''WORKS_AT''} \<mapsto> WorksAtRel], trace = []\<rparr>"


section \<open>Properties\<close>

subsection \<open>The checks\<close>

lemma raise_silent: "raise_error silent e st = (Inl e, st)"
  by (simp add: raise_error_def silent_def)

lemma pre_action_check_persisted:
  "persisted n \<Longrightarrow> pre_action_check_obs obs n a st = (Inr (), st)"
  by (auto simp add: pre_action_check_obs_def persisted_def)

lemma pre_action_check_not_persisted:
  "\<not> persisted n \<Longrightarrow> \<exists>e. pre_action_check_obs obs n a st = (Inl e, obs e st)"
  by (auto simp add: pre_action_check_obs_def persisted_def raise_error_def)

lemma check_source_persisted:
  "persisted (self_source self) \<Longrightarrow> check_source_obs obs fn_name fn self st = fn self st"
  by (simp add: check_source_obs_def pre_action_check_persisted)

lemma check_node_valid: "valid_node self obj \<Longrightarrow> check_node_obs obs self obj st = (Inr (), st)"
  by (auto simp add: check_node_obs_def valid_node_def)

lemma check_node_silent: "snd (check_node_obs silent self obj st) = st"
  by (simp add: check_node_obs_def raise_silent)

lemma id_of_Some: "n_id obj = Some i \<Longrightarrow> id_of_obs obs obj st = (Inr i, st)"
  by (simp add: id_of_obs_def)

lemma cypher_persisted:
  "persisted src \<Longrightarrow>
     cypher_obs obs env src q params st =
       (case run_query env src q params (db st) of
          (r, d) \<Rightarrow> (r, \<lparr>db = d, trace = trace st @ [Cypher q params (failure r)]\<rparr>))"
  by (simp add: cypher_obs_def pre_action_check_persisted)

lemmas sample_defs =
  alice_def bob_def carol_def unsaved_def Person_def Company_def friends_def followers_def
  alice_friends_def alice_followers_def unsaved_followers_def RelationshipManager_init_def
  persisted_def valid_node_def one_edge_def no_edge_def acme_def employers_def
  alice_employers_def

lemmas check_defs =
  check_source_obs_def check_node_obs_def pre_action_check_obs_def id_of_obs_def
  first_cell_obs_def raise_error_def silent_def recording_def

subsection \<open>Operations that do nothing\<close>

text \<open>
  C6: \<^verbatim>\<open>reconnect(old, new)\<close> with \<open>old\<close> and \<open>new\<close> of the same identity issues no query
  and leaves the database as it is: the state, trace included, is returned unchanged
  whatever the arguments, and the call returns \<^verbatim>\<open>None\<close> when the source and the two nodes
  pass their checks.
\<close>

theorem reconnect_same_identity_noop:
  "n_id old_node = n_id new_node \<Longrightarrow>
     snd (reconnect env self old_node new_node st) = st \<and>
     (persisted (self_source self) \<and> valid_node self old_node \<and> valid_node self new_node
        \<longrightarrow> reconnect env self old_node new_node st = (Inr (), st))"
  by (simp add: reconnect_def reconnect_obs_def check_source_obs_def pre_action_check_obs_def
      check_node_obs_def raise_silent persisted_def valid_node_def)

theorem reconnect_same_identity_noop_witness:
  "n_id bob = n_id bob \<and> persisted (self_source alice_friends) \<and> valid_node alice_friends bob \<and>
   reconnect sample_env alice_friends bob bob one_edge = (Inr (), one_edge)"
  using reconnect_same_identity_noop [of bob bob sample_env alice_friends one_edge]
  by (simp add: sample_defs)

text \<open>
  C7: \<^verbatim>\<open>bulk_disconnect([])\<close> and \<^verbatim>\<open>bulk_connect([], label, properties)\<close> issue no query and
  leave the database as it is. \<^verbatim>\<open>bulk_disconnect([])\<close> returns \<^verbatim>\<open>None\<close>;
  \<^verbatim>\<open>bulk_connect([], ...)\<close> returns \<^verbatim>\<open>None\<close> on a persisted source.
\<close>

theorem bulk_empty_noop:
  "bulk_disconnect env self [] st = (Inr (), st) \<and>
   snd (bulk_connect env self [] label properties st) = st \<and>
   (persisted (self_source self) \<longrightarrow> bulk_connect env self [] label properties st = (Inr None, st))"
  by (simp add: bulk_disconnect_def bulk_disconnect_obs_def bulk_connect_def bulk_connect_obs_def
      check_source_obs_def pre_action_check_obs_def raise_silent persisted_def)

theorem bulk_empty_noop_witness:
  "persisted (self_source alice_friends) \<and>
   bulk_disconnect sample_env alice_friends [] one_edge = (Inr (), one_edge) \<and>
   bulk_connect sample_env alice_friends [] ''Person'' None one_edge = (Inr None, one_edge)"
  using bulk_empty_noop [of sample_env alice_friends one_edge "''Person''" None]
  by (simp add: sample_defs)

subsection \<open>The source check\<close>

lemma check_source_fails:
  "\<not> persisted (self_source self) \<Longrightarrow>
     isl (fst (check_source_obs silent fn_name fn self st)) \<and>
     snd (check_source_obs silent fn_name fn self st) = st"
  using pre_action_check_not_persisted
    [of "self_source self" silent "self_name self @ ''.'' @ fn_name" st]
  by (auto simp add: check_source_obs_def silent_def)

text \<open>
  The six decorated mutations fail on a source that is not persisted, with the state
  and the trace as they were.
\<close>

lemma decorated_fail_fast:
  assumes "\<not> persisted (self_source self)"
  shows "isl (fst (connect env self nd properties st)) \<and> snd (connect env self nd properties st) = st"
    and "isl (fst (bulk_connect env self nodes label properties st))
         \<and> snd (bulk_connect env self nodes label properties st) = st"
    and "isl (fst (disconnect env self nd st)) \<and> snd (disconnect env self nd st) = st"
    and "isl (fst (disconnect_all env self st)) \<and> snd (disconnect_all env self st) = st"
    and "isl (fst (replace env self nd properties st)) \<and> snd (replace env self nd properties st) = st"
    and "isl (fst (reconnect env self old_node new_node st))
         \<and> snd (reconnect env self old_node new_node st) = st"
  unfolding connect_def bulk_connect_def disconnect_def disconnect_all_def replace_def reconnect_def
    connect_obs_def bulk_connect_obs_def disconnect_obs_def disconnect_all_obs_def replace_obs_def
    reconnect_obs_def
  using assms by (simp_all only: check_source_fails simp_thms)

text \<open>
  \<^verbatim>\<open>bulk_disconnect\<close> with a non-empty list, on a source that is not persisted, fails
  inside \<^verbatim>\<open>source.cypher\<close>: no query reaches the session and the database is as it was.
\<close>

lemma bulk_disconnect_stops_at_cypher:
  "\<not> persisted (self_source self) \<Longrightarrow> nodes \<noteq> [] \<Longrightarrow>
     isl (fst (bulk_disconnect env self nodes st)) \<and>
     filter is_query (trace (snd (bulk_disconnect env self nodes st))) = filter is_query (trace st) \<and>
     db (snd (bulk_disconnect env self nodes st)) = db st"
  by (auto simp add: bulk_disconnect_def bulk_disconnect_obs_def cypher_obs_def
      pre_action_check_obs_def raise_silent persisted_def Let_def)

text \<open>
  C4: every mutation is to check the source first and to fail when the source is not
  persisted. \<^verbatim>\<open>bulk_disconnect\<close> is the one mutation without \<^verbatim>\<open>@check_source\<close>. On an
  unsaved source, \<^verbatim>\<open>bulk_disconnect([])\<close> returns \<^verbatim>\<open>None\<close> and raises nothing, where
  \<^verbatim>\<open>bulk_connect([], ...)\<close> on the same source fails at the check with the state as it
  was. With a key in the list, \<^verbatim>\<open>bulk_disconnect\<close> fails too, but not first: it has built
  and printed its query by then, and the failure is the one of \<^verbatim>\<open>source.cypher\<close>, where
  \<^verbatim>\<open>bulk_connect\<close> fails at the check and leaves no trace.
\<close>

theorem bulk_disconnect_unchecked_source:
  "\<not> persisted (self_source unsaved_followers) \<and>
   bulk_disconnect sample_env unsaved_followers [] no_edge = (Inr (), no_edge) \<and>
   isl (fst (bulk_connect sample_env unsaved_followers [] ''Person'' None no_edge)) \<and>
   snd (bulk_connect sample_env unsaved_followers [] ''Person'' None no_edge) = no_edge \<and>
   isl (fst (bulk_disconnect sample_env unsaved_followers [UUID ''u1''] no_edge)) \<and>
   trace (snd (bulk_disconnect sample_env unsaved_followers [UUID ''u1''] no_edge)) =
     [Print ''MATCH (a), (b) WHERE id(a)=$self and b.uuid in $them MATCH (a)<-[r:FOLLOWS]-(b) DELETE r''
        [''u1'']] \<and>
   isl (fst (bulk_connect sample_env unsaved_followers [UUID ''u1''] ''Person'' None no_edge)) \<and>
   snd (bulk_connect sample_env unsaved_followers [UUID ''u1''] ''Person'' None no_edge) = no_edge"
  by (simp add: sample_defs bulk_disconnect_def bulk_disconnect_obs_def bulk_connect_def
      bulk_connect_obs_def cypher_obs_def check_defs sample_env_def sample_rel_helper_def
      arrow_def Let_def)

subsection \<open>Properties without a model\<close>

text \<open>
  C3, as the claim states it, fails: \<^verbatim>\<open>bulk_connect\<close> with an empty list of keys returns
  \<^verbatim>\<open>None\<close> without an error, properties and missing model notwithstanding, since the
  \<^verbatim>\<open>if nodes:\<close> guard comes before \<^verbatim>\<open>connect_helper\<close>.
\<close>

theorem bulk_connect_empty_with_properties_counterexample:
  "model (self_definition alice_followers) = None \<and>
   truthy (Some [(''since'', PInt 2020)]) \<and>
   bulk_connect sample_env alice_followers [] ''Person'' (Some [(''since'', PInt 2020)]) no_edge =
     (Inr None, no_edge)"
  by (simp add: sample_defs truthy_def bulk_connect_def bulk_connect_obs_def check_defs)

text \<open>
  C3, amended: with no bound edge-property class and non-empty properties, \<^verbatim>\<open>connect\<close>, and
  \<^verbatim>\<open>bulk_connect\<close> with a non-empty list of keys, fail before any query is handed to the
  session (state and trace unchanged). On a persisted source (and, for \<^verbatim>\<open>connect\<close>, with
  a node that passes \<^verbatim>\<open>_check_node\<close>) the error is the one \<^verbatim>\<open>connect_helper\<close> raises for
  properties without a model, an instance of \<^verbatim>\<open>NotImplementedError\<close>. \<^verbatim>\<open>bulk_connect\<close>
  with an empty list on a persisted source returns \<^verbatim>\<open>None\<close>.
\<close>

theorem properties_without_model_rejected:
  "model (self_definition self) = None \<Longrightarrow> truthy properties \<Longrightarrow>
     isl (fst (connect env self nd properties st)) \<and>
     snd (connect env self nd properties st) = st \<and>
     (persisted (self_source self) \<and> valid_node self nd \<longrightarrow>
        fst (connect env self nd properties st) =
          Inl (NotImplementedError
                 ''Relationship properties without using a relationship model is no longer supported.'')) \<and>
     (nodes \<noteq> [] \<longrightarrow>
        isl (fst (bulk_connect env self nodes label properties st)) \<and>
        snd (bulk_connect env self nodes label properties st) = st) \<and>
     (nodes \<noteq> [] \<and> persisted (self_source self) \<longrightarrow>
        fst (bulk_connect env self nodes label properties st) =
          Inl (NotImplementedError
                 ''Relationship properties without using a relationship model is no longer supported.'')) \<and>
     (persisted (self_source self) \<longrightarrow>
        bulk_connect env self [] label properties st = (Inr None, st))"
  by (simp add: connect_def connect_obs_def bulk_connect_def bulk_connect_obs_def
      check_source_obs_def pre_action_check_obs_def check_node_obs_def connect_helper_obs_def
      raise_silent persisted_def valid_node_def)

theorem properties_without_model_rejected_witness:
  "model (self_definition alice_followers) = None \<and>
   truthy (Some [(''since'', PInt 2020)]) \<and>
   persisted (self_source alice_followers) \<and> valid_node alice_followers bob \<and>
   [UUID ''u1''] \<noteq> [] \<and>
   connect sample_env alice_followers bob (Some [(''since'', PInt 2020)]) no_edge =
     (Inl (NotImplementedError
             ''Relationship properties without using a relationship model is no longer supported.''),
      no_edge) \<and>
   bulk_connect sample_env alice_followers [UUID ''u1''] ''Person'' (Some [(''since'', PInt 2020)])
       no_edge =
     (Inl (NotImplementedError
             ''Relationship properties without using a relationship model is no longer supported.''),
      no_edge)"
proof -
  have m: "model (self_definition alice_followers) = None"
    by (simp add: sample_defs)
  have t: "truthy (Some [(''since'', PInt 2020)])"
    by (simp add: truthy_def)
  have p: "persisted (self_source alice_followers)" and v: "valid_node alice_followers bob"
    by (simp_all add: sample_defs)
  show ?thesis
    using properties_without_model_rejected
      [OF m t, of sample_env bob no_edge "[UUID ''u1'']" "''Person''"] m t p v
    by (simp add: prod_eq_iff)
qed

subsection \<open>\<^verbatim>\<open>reconnect\<close>\<close>

lemma copy_properties_concat: "copy_properties ps q = q @ concat (map set_clause ps)"
  unfolding copy_properties_def by (induction ps arbitrary: q) simp_all

lemma set_clause_fun: "set_clause = (\<lambda>p. '' SET r2.'' @ p @ '' = r.'' @ p)"
  by (rule ext) (simp add: set_clause_def)

lemma reconnect_query_clauses:
  "reconnect_query env self keys =
     ''MATCH (us), (old), (new) WHERE id(us)=$self and id(old)=$old and id(new)=$new MATCH ''
     @ rel_helper env ''us'' ''old'' ''r'' (self_definition self)
     @ '' MERGE'' @ rel_merge_helper env ''us'' ''new'' ''r2'' None (self_definition self)
     @ concat (map (\<lambda>p. '' SET r2.'' @ p @ '' = r.'' @ p) keys)
     @ '' WITH r DELETE r''"
  by (simp add: reconnect_query_def copy_properties_concat set_clause_fun Let_def)

text \<open>
  The queries of \<^verbatim>\<open>reconnect(old, new)\<close> on a persisted source, with two nodes of the
  declared class and of distinct identities, when the read query finds an edge to
  \<open>old\<close>: after the read it hands exactly one query to the session. That query matches
  the old edge, then merges the new edge, then has one \<^verbatim>\<open>SET r2.p = r.p\<close> for each
  property key \<open>p\<close> of the old edge as the read returned it, then deletes the old edge.
  What the database holds once it has run this text is decided by the database, which
  is no part of this module.
\<close>

lemma reconnect_one_mutation_query:
  assumes src: "persisted (self_source self)"
    and old: "valid_node self old_node" and new: "valid_node self new_node"
    and ids: "n_id old_node = Some old_id" "n_id new_node = Some new_id" "old_id \<noteq> new_id"
    and edge: "run_query env (self_source self) (reconnect_read_query env self)
                 (Some [(''old'', PInt old_id)]) (db st) = (Inr ((r # cells) # rows, meta), d1)"
    and run: "run_query env (self_source self) q
                (Some [(''old'', PInt old_id), (''new'', PInt new_id)]) d1 = (res, d2)"
    and q: "q = ''MATCH (us), (old), (new) WHERE id(us)=$self and id(old)=$old and id(new)=$new MATCH ''
                @ rel_helper env ''us'' ''old'' ''r'' (self_definition self)
                @ '' MERGE'' @ rel_merge_helper env ''us'' ''new'' ''r2'' None (self_definition self)
                @ concat (map (\<lambda>p. '' SET r2.'' @ p @ '' = r.'' @ p) (map fst (rel_properties r)))
                @ '' WITH r DELETE r''"
  shows "reconnect env self old_node new_node st =
           ((case res of Inl e \<Rightarrow> Inl e | Inr _ \<Rightarrow> Inr ()),
            \<lparr>db = d2,
             trace = trace st @
               [Cypher (reconnect_read_query env self) (Some [(''old'', PInt old_id)]) None,
                Cypher q (Some [(''old'', PInt old_id), (''new'', PInt new_id)]) (failure res)]\<rparr>)"
proof -
  have q': "reconnect_query env self (map fst (get_node_properties r)) = q"
    unfolding q reconnect_query_clauses get_node_properties_def ..
  show ?thesis
    unfolding reconnect_def reconnect_obs_def
    using ids edge run
    by (cases res)
      (simp_all add: check_source_persisted [OF src] check_node_valid [OF old]
        check_node_valid [OF new] id_of_Some Let_def cypher_persisted [OF src] first_cell_obs_def
        failure_def q')
qed

lemma reconnect_one_mutation_query_sample:
  "persisted (self_source alice_friends) \<and> valid_node alice_friends bob \<and>
   valid_node alice_friends carol \<and> n_id bob = Some 2 \<and> n_id carol = Some 3 \<and> (2::int) \<noteq> 3 \<and>
   reconnect sample_env alice_friends bob carol one_edge =
     (Inr (),
      \<lparr>db = [[since_2020]],
       trace =
         [Cypher ''MATCH (us), (old) WHERE id(us)=$self and id(old)=$old MATCH (us)-[r:FRIEND]->(old) RETURN r''
            (Some [(''old'', PInt 2)]) None,
          Cypher ''MATCH (us), (old), (new) WHERE id(us)=$self and id(old)=$old and id(new)=$new MATCH (us)-[r:FRIEND]->(old) MERGE(us)-[r2:FRIEND]->(new) SET r2.since = r.since SET r2.note = r.note WITH r DELETE r''
            (Some [(''old'', PInt 2), (''new'', PInt 3)]) None]\<rparr>)"
proof -
  have src: "persisted (self_source alice_friends)"
    and old: "valid_node alice_friends bob" and new: "valid_node alice_friends carol"
    and ids: "n_id bob = Some 2" "n_id carol = Some 3" "(2::int) \<noteq> 3"
    by (simp_all add: sample_defs)
  have edge: "run_query sample_env (self_source alice_friends)
      (reconnect_read_query sample_env alice_friends) (Some [(''old'', PInt 2)]) (db one_edge)
    = (Inr ((since_2020 # []) # [], [''r'']), [[since_2020]])"
    by (simp add: sample_env_def one_edge_def)
  have run: "run_query sample_env (self_source alice_friends)
      ''MATCH (us), (old), (new) WHERE id(us)=$self and id(old)=$old and id(new)=$new MATCH (us)-[r:FRIEND]->(old) MERGE(us)-[r2:FRIEND]->(new) SET r2.since = r.since SET r2.note = r.note WITH r DELETE r''
      (Some [(''old'', PInt 2), (''new'', PInt 3)]) [[since_2020]]
    = (Inr ([[since_2020]], [''r'']), [[since_2020]])"
    by (simp add: sample_env_def)
  have q: "''MATCH (us), (old), (new) WHERE id(us)=$self and id(old)=$old and id(new)=$new MATCH (us)-[r:FRIEND]->(old) MERGE(us)-[r2:FRIEND]->(new) SET r2.since = r.since SET r2.note = r.note WITH r DELETE r''
     = ''MATCH (us), (old), (new) WHERE id(us)=$self and id(old)=$old and id(new)=$new MATCH ''
       @ rel_helper sample_env ''us'' ''old'' ''r'' (self_definition alice_friends)
       @ '' MERGE'' @ rel_merge_helper sample_env ''us'' ''new'' ''r2'' None (self_definition alice_friends)
       @ concat (map (\<lambda>p. '' SET r2.'' @ p @ '' = r.'' @ p) (map fst (rel_properties since_2020)))
       @ '' WITH r DELETE r''"
    by (simp add: since_2020_def
        sample_env_def sample_rel_helper_def sample_rel_merge_helper_def arrow_def sample_defs)
  have rq: "reconnect_read_query sample_env alice_friends =
    ''MATCH (us), (old) WHERE id(us)=$self and id(old)=$old MATCH (us)-[r:FRIEND]->(old) RETURN r''"
    by (simp add: reconnect_read_query_def sample_env_def sample_rel_helper_def arrow_def
        sample_defs)
  have s: "trace one_edge = []"
    by (simp add: one_edge_def)
  show ?thesis
    using reconnect_one_mutation_query [OF src old new ids edge run q] src old new ids
    by (simp add: s rq failure_def)
qed

text \<open>
  C5, as the claim states it, fails: with \<open>old\<close> and \<open>new\<close> of the same identity the
  operation returns \<^verbatim>\<open>None\<close> before it looks for an edge, also when there is none.
\<close>

theorem reconnect_same_node_not_connected_counterexample:
  "fst (run_query sample_env (self_source alice_friends)
          (reconnect_read_query sample_env alice_friends) (Some [(''old'', PInt 2)]) (db no_edge))
     = Inr ([], [''r'']) \<and>
   reconnect sample_env alice_friends bob bob no_edge = (Inr (), no_edge)"
  by (simp add: sample_defs sample_env_def reconnect_def reconnect_obs_def check_defs)

text \<open>
  C5, amended: \<^verbatim>\<open>reconnect(old, new)\<close> on a persisted source, with two nodes of the declared
  class and of distinct identities, when the read query finds no edge to \<open>old\<close>, fails
  with \<^verbatim>\<open>NotConnected('reconnect', source, old)\<close>; the read query is the only query it
  hands to the session.
\<close>

theorem reconnect_not_connected:
  assumes src: "persisted (self_source self)"
    and old: "valid_node self old_node" and new: "valid_node self new_node"
    and ids: "n_id old_node = Some old_id" "n_id old_node \<noteq> n_id new_node"
    and edge: "run_query env (self_source self) (reconnect_read_query env self)
                 (Some [(''old'', PInt old_id)]) (db st) = (Inr ([], meta), d1)"
  shows "reconnect env self old_node new_node st =
           (Inl (NotConnected ''reconnect'' (self_source self) old_node),
            \<lparr>db = d1,
             trace = trace st @
               [Cypher (reconnect_read_query env self) (Some [(''old'', PInt old_id)]) None]\<rparr>)"
  unfolding reconnect_def reconnect_obs_def
  using ids edge
  by (simp add: check_source_persisted [OF src] check_node_valid [OF old]
      check_node_valid [OF new] id_of_Some Let_def cypher_persisted [OF src] failure_def
      raise_silent)

theorem reconnect_not_connected_witness:
  "persisted (self_source alice_friends) \<and> valid_node alice_friends bob \<and>
   valid_node alice_friends carol \<and> n_id bob = Some 2 \<and> n_id bob \<noteq> n_id carol \<and>
   run_query sample_env (self_source alice_friends) (reconnect_read_query sample_env alice_friends)
     (Some [(''old'', PInt 2)]) (db no_edge) = (Inr ([], [''r'']), []) \<and>
   reconnect sample_env alice_friends bob carol no_edge =
     (Inl (NotConnected ''reconnect'' alice bob),
      \<lparr>db = [],
       trace = [Cypher ''MATCH (us), (old) WHERE id(us)=$self and id(old)=$old MATCH (us)-[r:FRIEND]->(old) RETURN r''
                  (Some [(''old'', PInt 2)]) None]\<rparr>)"
proof -
  have src: "persisted (self_source alice_friends)"
    and old: "valid_node alice_friends bob" and new: "valid_node alice_friends carol"
    and ids: "n_id bob = Some 2" "n_id bob \<noteq> n_id carol"
    by (simp_all add: sample_defs)
  have edge: "run_query sample_env (self_source alice_friends)
      (reconnect_read_query sample_env alice_friends) (Some [(''old'', PInt 2)]) (db no_edge)
    = (Inr ([], [''r'']), [])"
    by (simp add: sample_env_def no_edge_def)
  have q: "reconnect_read_query sample_env alice_friends =
    ''MATCH (us), (old) WHERE id(us)=$self and id(old)=$old MATCH (us)-[r:FRIEND]->(old) RETURN r''"
    by (simp add: reconnect_read_query_def sample_env_def sample_rel_helper_def arrow_def
        sample_defs)
  have s: "self_source alice_friends = alice" "trace no_edge = []"
    by (simp_all add: alice_friends_def RelationshipManager_init_def no_edge_def)
  show ?thesis
    using reconnect_not_connected [OF src old new ids edge] src old new ids edge
    by (simp add: q s)
qed

subsection \<open>The registry\<close>

lemma register_model_bound:
  "db st {rel_type} = Some bound \<Longrightarrow>
     register_model_obs silent rel_type (Some m) st =
       (if issubclass (rm_class m) bound
        then (Inr (), st\<lparr>db := (db st)({rel_type} \<mapsto> rm_class m)\<rparr>)
        else if is_direct_subclass (rm_class m) StructuredRel \<and> \<not> issubclass bound (rm_class m)
        then (Inl (RelationshipClassRedefined rel_type (db st) (rm_class m)), st)
        else (Inr (), st))"
  by (simp add: register_model_obs_def register_try_def registry_get_def raise_silent
      is_KeyError_def Let_def)

lemma frame_found:
  "n < length frames \<Longrightarrow> getframe_obs obs frames n st = (Inr (frames ! n), st)"
  by (simp add: getframe_obs_def)

lemma global_found:
  "map_of (f_globals fr) key = Some v \<Longrightarrow> global_obs obs fr key st = (Inr v, st)"
  by (simp add: global_obs_def)

lemmas class_defs =
  StructuredRel_def BaseRel_def FriendRel_def CloseFriendRel_def RivalRel_def WorksAtRel_def
  WorksAtRel_elsewhere_def

text \<open>
  C2, as the claim states it, fails: \<^verbatim>\<open>RivalRel\<close> and the bound \<^verbatim>\<open>FriendRel\<close> are two
  subclasses of \<^verbatim>\<open>BaseRel\<close>, neither a subclass of the other, and registering \<^verbatim>\<open>RivalRel\<close>
  under the bound label raises nothing and leaves the binding as it was, since
  \<^verbatim>\<open>RivalRel\<close> is not a direct subclass of \<^verbatim>\<open>StructuredRel\<close>.
  And a subclass of the bound class is not registered when the constructor does not
  find the frame of the declaration: at the top level of a script, with the class itself
  as argument, \<^verbatim>\<open>sys._getframe(4)\<close> raises \<^verbatim>\<open>ValueError\<close> before the registry is read.
\<close>

theorem unrelated_indirect_class_counterexample:
  "db friend_registry {''FRIEND''} = Some FriendRel \<and>
   \<not> issubclass RivalRel FriendRel \<and> \<not> issubclass FriendRel RivalRel \<and>
   RelationshipDefinition_init module_frames ''FRIEND'' (ClsName ''Person'') OUTGOING ZeroOrMore
       (Some (sample_model RivalRel)) friend_registry =
     (Inr \<lparr>rd_module_name = PStr ''myapp.models'',
           rd_module_file = Some (PStr ''myapp/models.py''),
           rd_raw_class = ClsName ''Person'', rd_manager = ZeroOrMore,
           rd_definition = \<lparr>relation_type = ''FRIEND'', direction = OUTGOING,
                            model = Some (sample_model RivalRel)\<rparr>\<rparr>,
      friend_registry) \<and>
   snd (RelationshipTo module_frames (ClsName ''Person'') ''FRIEND'' ZeroOrMore
          (Some (sample_model RivalRel)) friend_registry) = friend_registry \<and>
   \<not> isl (fst (RelationshipTo module_frames (ClsName ''Person'') ''FRIEND'' ZeroOrMore
                 (Some (sample_model RivalRel)) friend_registry)) \<and>
   issubclass CloseFriendRel FriendRel \<and>
   RelationshipDefinition_init script_frames ''FRIEND'' (ClsObj Person) OUTGOING ZeroOrMore
       (Some (sample_model CloseFriendRel)) friend_registry =
     (Inl (ValueError ''call stack is not deep enough''), friend_registry)"
  by (simp add: friend_registry_def class_defs RelationshipDefinition_init_def
      RelationshipDefinition_init_obs_def module_frames_def script_frames_def
      getframe_obs_def global_obs_def frame_number_def in_globals_def register_model_obs_def
      register_try_def registry_get_def is_direct_subclass_def raise_silent
      sample_model_def RelationshipTo_def RelationshipTo_obs_def relate_obs_def Let_def)

text \<open>
  C2, amended: for a label already bound, when the frame of the declaration is found
  (the stack is as deep as the frame number and the globals of that frame hold
  \<^verbatim>\<open>__name__\<close>), constructing a relationship definition whose edge-property class is
  unrelated to the bound class (neither a subclass nor an ancestor of it, classes being
  compared by identity) fails with \<^verbatim>\<open>RelationshipClassRedefined\<close> when that class is a
  direct subclass of \<^verbatim>\<open>StructuredRel\<close>, and succeeds with the binding unchanged when it
  is not; constructing one whose class is a subclass of the bound class succeeds and
  rebinds the label to it.
\<close>

theorem registry_redefinition:
  assumes depth: "frame_number cls_name frames < length frames"
    and fr: "fr = frames ! frame_number cls_name frames"
    and nm: "map_of (f_globals fr) ''__name__'' = Some mod_name"
    and bound: "db st {rel_type} = Some bound"
    and obj: "obj = \<lparr>rd_module_name = mod_name,
                     rd_module_file = map_of (f_globals fr) ''__file__'',
                     rd_raw_class = cls_name, rd_manager = mgr,
                     rd_definition = \<lparr>relation_type = rel_type, direction = dir, model = Some m\<rparr>\<rparr>"
  shows "(\<not> issubclass (rm_class m) bound \<and> \<not> issubclass bound (rm_class m)
            \<and> is_direct_subclass (rm_class m) StructuredRel \<longrightarrow>
          RelationshipDefinition_init frames rel_type cls_name dir mgr (Some m) st =
            (Inl (RelationshipClassRedefined rel_type (db st) (rm_class m)), st)) \<and>
         (\<not> issubclass (rm_class m) bound \<and> \<not> issubclass bound (rm_class m)
            \<and> \<not> is_direct_subclass (rm_class m) StructuredRel \<longrightarrow>
          RelationshipDefinition_init frames rel_type cls_name dir mgr (Some m) st =
            (Inr obj, st)) \<and>
         (issubclass (rm_class m) bound \<longrightarrow>
          RelationshipDefinition_init frames rel_type cls_name dir mgr (Some m) st =
            (Inr obj, st\<lparr>db := (db st)({rel_type} \<mapsto> rm_class m)\<rparr>))"
  using register_model_bound [of st rel_type bound m] bound nm
  by (simp add: RelationshipDefinition_init_def RelationshipDefinition_init_obs_def
      frame_found [OF depth] global_found fr obj Let_def)

theorem registry_redefinition_witness:
  "frame_number (ClsName ''Person'') module_frames < length module_frames \<and>
   map_of (f_globals (module_frames ! frame_number (ClsName ''Person'') module_frames)) ''__name__'' =
     Some (PStr ''myapp.models'') \<and>
   db friend_registry {''FRIEND''} = Some FriendRel \<and>
   \<not> issubclass WorksAtRel FriendRel \<and> \<not> issubclass FriendRel WorksAtRel \<and>
   is_direct_subclass WorksAtRel StructuredRel \<and>
   RelationshipDefinition_init module_frames ''FRIEND'' (ClsName ''Person'') OUTGOING ZeroOrMore
       (Some (sample_model WorksAtRel)) friend_registry =
     (Inl (RelationshipClassRedefined ''FRIEND'' (db friend_registry) WorksAtRel), friend_registry) \<and>
   issubclass CloseFriendRel FriendRel \<and>
   snd (RelationshipDefinition_init module_frames ''FRIEND'' (ClsName ''Person'') OUTGOING ZeroOrMore
       (Some (sample_model CloseFriendRel)) friend_registry) =
     friend_registry\<lparr>db := (db friend_registry)({''FRIEND''} \<mapsto> CloseFriendRel)\<rparr> \<and>
   db works_at_registry {''WORKS_AT''} = Some WorksAtRel \<and>
   name_of WorksAtRel_elsewhere = name_of WorksAtRel \<and>
   bases_of WorksAtRel_elsewhere = bases_of WorksAtRel \<and>
   WorksAtRel_elsewhere \<noteq> WorksAtRel \<and>
   RelationshipDefinition_init module_frames ''WORKS_AT'' (ClsName ''Person'') OUTGOING ZeroOrMore
       (Some (sample_model WorksAtRel_elsewhere)) works_at_registry =
     (Inl (RelationshipClassRedefined ''WORKS_AT'' (db works_at_registry) WorksAtRel_elsewhere),
      works_at_registry)"
proof -
  let ?fr = "module_frames ! frame_number (ClsName ''Person'') module_frames"
  have depth: "frame_number (ClsName ''Person'') module_frames < length module_frames"
    by (simp add: module_frames_def frame_number_def in_globals_def)
  have nm: "map_of (f_globals ?fr) ''__name__'' = Some (PStr ''myapp.models'')"
    by (simp add: module_frames_def frame_number_def in_globals_def)
  have bound: "db friend_registry {''FRIEND''} = Some FriendRel"
    by (simp add: friend_registry_def)
  have bound2: "db works_at_registry {''WORKS_AT''} = Some WorksAtRel"
    by (simp add: works_at_registry_def)
  have c: "\<not> issubclass WorksAtRel FriendRel" "\<not> issubclass FriendRel WorksAtRel"
    "is_direct_subclass WorksAtRel StructuredRel" "issubclass CloseFriendRel FriendRel"
    "\<not> issubclass WorksAtRel_elsewhere WorksAtRel" "\<not> issubclass WorksAtRel WorksAtRel_elsewhere"
    "is_direct_subclass WorksAtRel_elsewhere StructuredRel"
    "name_of WorksAtRel_elsewhere = name_of WorksAtRel"
    "bases_of WorksAtRel_elsewhere = bases_of WorksAtRel"
    "WorksAtRel_elsewhere \<noteq> WorksAtRel"
    by (simp_all add: class_defs is_direct_subclass_def)
  have w: "rm_class (sample_model WorksAtRel) = WorksAtRel"
    and f: "rm_class (sample_model CloseFriendRel) = CloseFriendRel"
    and e: "rm_class (sample_model WorksAtRel_elsewhere) = WorksAtRel_elsewhere"
    by (simp_all add: sample_model_def)
  show ?thesis
    using registry_redefinition
        [where frames = module_frames and cls_name = "ClsName ''Person''" and fr = ?fr
           and mod_name = "PStr ''myapp.models''" and st = friend_registry
           and rel_type = "''FRIEND''" and bound = FriendRel and m = "sample_model WorksAtRel"
           and mgr = ZeroOrMore and dir = OUTGOING, OF depth refl nm bound refl]
      registry_redefinition
        [where frames = module_frames and cls_name = "ClsName ''Person''" and fr = ?fr
           and mod_name = "PStr ''myapp.models''" and st = friend_registry
           and rel_type = "''FRIEND''" and bound = FriendRel and m = "sample_model CloseFriendRel"
           and mgr = ZeroOrMore and dir = OUTGOING, OF depth refl nm bound refl]
      registry_redefinition
        [where frames = module_frames and cls_name = "ClsName ''Person''" and fr = ?fr
           and mod_name = "PStr ''myapp.models''" and st = works_at_registry
           and rel_type = "''WORKS_AT''" and bound = WorksAtRel
           and m = "sample_model WorksAtRel_elsewhere"
           and mgr = ZeroOrMore and dir = OUTGOING, OF depth refl nm bound2 refl]
      depth nm bound bound2 c
    by (simp add: w f e)
qed

subsection \<open>The back-references of a materialized edge\<close>

lemma set_start_end_cls_oriented:
  "oriented (direction (self_definition self)) (self_source_class self) (class_of obj)
     (set_start_end_cls self inst obj)"
  by (simp add: oriented_def set_start_end_cls_def)

lemma set_start_end_cls_keeps:
  "inst_class (set_start_end_cls self inst obj) = inst_class inst \<and>
   inst_properties (set_start_end_cls self inst obj) = inst_properties inst"
  by (simp add: set_start_end_cls_def)

lemma read_back_materializes:
  "read_back_obs obs env self m q params obj st = (Inr (CRel inst), st') \<Longrightarrow>
     \<exists>inflated. inst = set_start_end_cls self inflated obj"
  by (auto simp add: read_back_obs_def Let_def collab_def
      split: if_splits sum.splits prod.splits option.splits)

lemma connect_helper_materializes:
  "connect_helper_obs obs env self q properties obj nodes st = (Inr (CRel inst), st') \<Longrightarrow>
     \<exists>inflated. inst = set_start_end_cls self inflated obj"
  by (auto simp add: connect_helper_obs_def raise_error_def Let_def
      dest: read_back_materializes split: if_splits sum.splits prod.splits option.splits)

lemma check_source_result:
  "check_source_obs obs fn_name fn self st = (Inr v, st') \<Longrightarrow> \<exists>st1. fn self st1 = (Inr v, st')"
  by (auto simp add: check_source_obs_def split: sum.splits prod.splits)

lemma connect_materializes:
  "connect env self nd properties st = (Inr (CRel inst), st') \<Longrightarrow>
     \<exists>inflated. inst = set_start_end_cls self inflated (Some nd)"
  by (auto simp add: connect_def connect_obs_def Let_def
      dest!: check_source_result dest: connect_helper_materializes split: sum.splits prod.splits)

lemma relationship_materializes:
  "relationship env self nd st = (Inr (Some inst), st') \<Longrightarrow>
     \<exists>inflated. inst = set_start_end_cls self inflated (Some nd)"
  by (auto simp add: relationship_def relationship_obs_def Let_def collab_def
      dest!: check_source_result split: if_splits sum.splits prod.splits)

lemma inflate_rows_materializes:
  "inflate_rows_obs obs self m nd rows st = (Inr insts, st') \<Longrightarrow>
     list_all (\<lambda>inst. \<exists>inflated. inst = set_start_end_cls self inflated (Some nd)) insts"
proof (induction rows arbitrary: st insts)
  case Nil
  then show ?case by simp
next
  case (Cons row rows)
  then show ?case
    by (auto simp add: collab_def raise_error_def split: list.splits sum.splits prod.splits)
qed

lemma all_relationships_materializes:
  "all_relationships env self nd st = (Inr insts, st') \<Longrightarrow>
     list_all (\<lambda>inst. \<exists>inflated. inst = set_start_end_cls self inflated (Some nd)) insts"
  by (auto simp add: all_relationships_def all_relationships_obs_def Let_def
      dest!: check_source_result dest: inflate_rows_materializes
      split: if_splits sum.splits prod.splits)

text \<open>
  C10: on a manager built for a source node, \<^verbatim>\<open>_set_start_end_cls\<close> sets the two
  back-references whatever they were before, and every edge-property instance that
  \<^verbatim>\<open>connect\<close>, \<^verbatim>\<open>relationship\<close> or \<^verbatim>\<open>all_relationships\<close> returns carries them: with direction
  \<^verbatim>\<open>INCOMING\<close> the start class is the target node's class and the end class the source
  node's class, with any other direction the start class is the source node's and the
  end class the target node's.
\<close>

text \<open>
  C10: on a manager built for a source node, \<^verbatim>\<open>_set_start_end_cls\<close> sets the two
  back-references whatever they were before, and every edge-property instance that
  \<^verbatim>\<open>connect\<close>, \<^verbatim>\<open>relationship\<close> or \<^verbatim>\<open>all_relationships\<close> returns carries them: with direction
  \<^verbatim>\<open>INCOMING\<close> the start class is the target node's class and the end class the source
  node's class, with any other direction the start class is the source node's and the
  end class the target node's.
\<close>

theorem back_references_follow_direction:
  assumes self: "self = RelationshipManager_init src key dfn"
  shows "oriented (direction dfn) (n_class src) (n_class nd) (set_start_end_cls self inst0 (Some nd)) \<and>
         (connect env self nd properties st = (Inr (CRel inst), st') \<longrightarrow>
            oriented (direction dfn) (n_class src) (n_class nd) inst) \<and>
         (relationship env self nd st = (Inr (Some inst), st') \<longrightarrow>
            oriented (direction dfn) (n_class src) (n_class nd) inst) \<and>
         (all_relationships env self nd st = (Inr insts, st') \<longrightarrow>
            list_all (oriented (direction dfn) (n_class src) (n_class nd)) insts)"
proof -
  have o: "oriented (direction dfn) (n_class src) (n_class nd) (set_start_end_cls self i (Some nd))"
    for i
    using set_start_end_cls_oriented [of self "Some nd" i]
    by (simp add: self RelationshipManager_init_def class_of_def)
  have "list_all (oriented (direction dfn) (n_class src) (n_class nd)) insts"
    if "all_relationships env self nd st = (Inr insts, st')"
    using all_relationships_materializes [OF that] o
    by (auto simp add: list_all_iff)
  then show ?thesis
    using o connect_materializes [of env self nd properties st inst st']
      relationship_materializes [of env self nd st inst st']
    by auto
qed

subsection \<open>The parameters of \<^verbatim>\<open>connect\<close>\<close>

lemma bind_item_pair:
  "bind_item (p, v) (rp, params) =
     (AList.update p (if v \<noteq> PNone then Some (''$'' @ p) else None) rp, AList.update p v params)"
  by (simp add: bind_item_def)

lemma bind_items_other:
  "p \<notin> fst ` set xs \<Longrightarrow>
     map_of (fst (fold bind_item xs acc)) p = map_of (fst acc) p \<and>
     map_of (snd (fold bind_item xs acc)) p = map_of (snd acc) p"
proof (induction xs arbitrary: acc)
  case Nil
  then show ?case by simp
next
  case (Cons x xs)
  obtain k w where x: "x = (k, w)" by (cases x)
  obtain rp params where acc: "acc = (rp, params)" by (cases acc)
  from Cons.prems x have "p \<noteq> k" and "p \<notin> fst ` set xs"
    by auto
  with Cons.IH [of "bind_item x acc"] show ?case
    by (simp add: x acc bind_item_pair update_conv')
qed

lemma bind_items_entry:
  "distinct (map fst xs) \<Longrightarrow> (p, v) \<in> set xs \<Longrightarrow>
     map_of (fst (fold bind_item xs acc)) p = Some (if v \<noteq> PNone then Some (''$'' @ p) else None) \<and>
     map_of (snd (fold bind_item xs acc)) p = Some v"
proof (induction xs arbitrary: acc)
  case Nil
  then show ?case by simp
next
  case (Cons x xs)
  obtain rp params where acc: "acc = (rp, params)" by (cases acc)
  show ?case
  proof (cases "(p, v) = x")
    case True
    with Cons.prems have "p \<notin> fst ` set xs"
      by force
    from bind_items_other [OF this, of "bind_item x acc"] True [symmetric] show ?thesis
      by (simp add: acc bind_item_pair update_conv')
  next
    case False
    with Cons.prems have "distinct (map fst xs)" and "(p, v) \<in> set xs"
      by auto
    from Cons.IH [OF this, of "bind_item x acc"] show ?thesis
      by simp
  qed
qed

lemma instantiate_defaults:
  "(f, d) \<in> set (rm_declared m) \<Longrightarrow>
     (f, case map_of supplied f of Some v \<Rightarrow> v | None \<Rightarrow> d)
       \<in> set (inst_properties (instantiate m supplied))"
  by (force simp add: instantiate_def)

lemma prepare_properties_model:
  assumes m: "model (self_definition self) = Some m"
    and deflate: "rm_deflate m (inst_properties
                    (instantiate m (if truthy properties then the properties else []))) = Inr deflated"
    and hook: "case rm_pre_save m of
                 None \<Rightarrow> True
               | Some h \<Rightarrow> h (instantiate m (if truthy properties then the properties else [])) = Inr ()"
  shows "fst (prepare_properties self properties st) =
           Inr (Some (fst (bind_items deflated)), snd (bind_items deflated)) \<and>
         db (snd (prepare_properties self properties st)) = db st \<and>
         (\<exists>evs. trace (snd (prepare_properties self properties st)) = trace st @ evs \<and>
                filter is_query evs = [])"
proof (cases "rm_pre_save m")
  case None
  with m deflate show ?thesis
    by (cases "truthy properties")
      (simp_all add: prepare_properties_def collab_def failure_def Let_def split: prod.splits)
next
  case (Some h)
  with m deflate hook show ?thesis
    by (cases "truthy properties")
      (simp_all add: prepare_properties_def collab_def failure_def Let_def split: prod.splits)
qed

lemma read_back_one_query:
  "persisted (self_source self) \<Longrightarrow>
   \<exists>evs. trace (snd (read_back_obs silent env self m q params nd st)) =
     trace st @ Cypher (q @ '' RETURN r'') (Some params)
                (failure (fst (run_query env (self_source self) (q @ '' RETURN r'') (Some params) (db st))))
              # evs \<and> filter is_query evs = []"
  by (auto simp add: read_back_obs_def cypher_persisted first_cell_obs_def raise_silent collab_def
      failure_def Let_def split: prod.splits sum.splits option.splits list.splits)

lemma connect_one_query:
  assumes src: "persisted (self_source self)" and nd: "valid_node self nd"
    and them: "n_id nd = Some them"
    and m: "model (self_definition self) = Some m"
    and deflate: "rm_deflate m (inst_properties
                    (instantiate m (if truthy properties then the properties else []))) = Inr deflated"
    and hook: "case rm_pre_save m of
                 None \<Rightarrow> True
               | Some h \<Rightarrow> h (instantiate m (if truthy properties then the properties else [])) = Inr ()"
    and q: "q = connect_query self nd
                @ rel_merge_helper env ''us'' ''them'' ''r'' (Some (fst (bind_items deflated)))
                    (self_definition self)
                @ '' RETURN r''"
    and params: "params = AList.update ''them'' (PInt them) (snd (bind_items deflated))"
  shows "filter is_query (new_events st (snd (connect env self nd properties st))) =
           [Cypher q (Some params)
              (failure (fst (run_query env (self_source self) q (Some params) (db st))))]"
proof -
  obtain r st1 where p: "prepare_properties self properties st = (r, st1)"
    by (cases "prepare_properties self properties st")
  from prepare_properties_model [OF m deflate hook, of st] p
  obtain evs where r: "r = Inr (Some (fst (bind_items deflated)), snd (bind_items deflated))"
    and d: "db st1 = db st" and t: "trace st1 = trace st @ evs" and e: "filter is_query evs = []"
    by auto
  let ?q = "connect_query self nd
            @ rel_merge_helper env ''us'' ''them'' ''r'' (Some (fst (bind_items deflated)))
                (self_definition self)"
  have c: "connect env self nd properties st = read_back_obs silent env self m ?q params (Some nd) st1"
    using m p r
    by (simp add: connect_def connect_obs_def check_source_persisted [OF src]
        check_node_valid [OF nd] connect_helper_obs_def bind_target_obs_def
        id_of_Some [OF them] Let_def params)
  from read_back_one_query [OF src, of env m ?q params "Some nd" st1]
  obtain evs' where "trace (snd (read_back_obs silent env self m ?q params (Some nd) st1)) =
      trace st1 @ Cypher (?q @ '' RETURN r'') (Some params)
        (failure (fst (run_query env (self_source self) (?q @ '' RETURN r'') (Some params) (db st1))))
      # evs'" and "filter is_query evs' = []"
    by blast
  with c t d e show ?thesis
    by (simp add: new_events_def q)
qed

subsection \<open>The back-references and the parameter map on concrete runs\<close>

lemmas sample_run_defs =
  sample_env_def sample_rel_helper_def sample_rel_merge_helper_def arrow_def sample_model_def
  sample_inflate_def since_2020_def

lemmas op_defs =
  connect_def connect_obs_def connect_query_def connect_helper_obs_def read_back_obs_def
  prepare_properties_def bind_target_obs_def bind_items_def bind_item_def instantiate_def
  truthy_def relationship_def relationship_obs_def relationship_query_def all_relationships_def
  all_relationships_obs_def all_relationships_query_def model_or_base_def check_defs
  cypher_obs_def collab_def failure_def set_start_end_cls_def class_of_def Let_def

theorem back_references_follow_direction_witness:
  "alice_employers = RelationshipManager_init alice ''employers'' employers \<and>
   fst (connect sample_env alice_employers acme None one_edge) =
     Inr (CRel \<lparr>inst_class = WorksAtRel,
                inst_properties = [(''since'', PInt 2020), (''note'', PStr ''met at work'')],
                start_node_class = Some Company, end_node_class = Some Person\<rparr>) \<and>
   oriented INCOMING Person Company
     \<lparr>inst_class = WorksAtRel,
      inst_properties = [(''since'', PInt 2020), (''note'', PStr ''met at work'')],
      start_node_class = Some Company, end_node_class = Some Person\<rparr> \<and>
   fst (relationship sample_env alice_employers acme one_edge) =
     Inr (Some \<lparr>inst_class = WorksAtRel,
                 inst_properties = [(''since'', PInt 2020), (''note'', PStr ''met at work'')],
                 start_node_class = Some Company, end_node_class = Some Person\<rparr>) \<and>
   fst (all_relationships sample_env alice_employers acme one_edge) =
     Inr [\<lparr>inst_class = WorksAtRel,
           inst_properties = [(''since'', PInt 2020), (''note'', PStr ''met at work'')],
           start_node_class = Some Company, end_node_class = Some Person\<rparr>]"
proof -
  let ?i = "\<lparr>inst_class = WorksAtRel,
      inst_properties = [(''since'', PInt 2020), (''note'', PStr ''met at work'')],
      start_node_class = Some Company, end_node_class = Some Person\<rparr>"
  have self: "alice_employers = RelationshipManager_init alice ''employers'' employers"
    by (simp add: alice_employers_def)
  have c: "fst (connect sample_env alice_employers acme None one_edge) = Inr (CRel ?i)"
    by (simp add: op_defs sample_run_defs sample_defs class_defs)
  have r: "fst (relationship sample_env alice_employers acme one_edge) = Inr (Some ?i)"
    by (simp add: op_defs sample_run_defs sample_defs class_defs)
  have a: "fst (all_relationships sample_env alice_employers acme one_edge) = Inr [?i]"
    by (simp add: op_defs sample_run_defs sample_defs class_defs)
  have d: "direction employers = INCOMING" "n_class alice = Person" "n_class acme = Company"
    by (simp_all add: employers_def alice_def acme_def)
  from back_references_follow_direction
    [OF self, of acme ?i sample_env None one_edge ?i
       "snd (connect sample_env alice_employers acme None one_edge)"]
    c
  show ?thesis
    using self c r a by (simp add: d prod_eq_iff)
qed

text \<open>
  C9: \<^verbatim>\<open>connect\<close> with a bound edge-property class, on a persisted source and a valid
  node, when \<^verbatim>\<open>deflate\<close> and the \<^verbatim>\<open>pre_save\<close> hook (if any) succeed. The throw-away
  instance holds, for every declared field, the supplied value or else the declared
  default. The loop over the deflated properties builds \<^verbatim>\<open>params\<close> with the deflated
  value of every property, \<^verbatim>\<open>None\<close> included, and \<^verbatim>\<open>rp\<close> with the placeholder \<^verbatim>\<open>$p\<close> when the
  value is not \<^verbatim>\<open>None\<close> and an explicit \<^verbatim>\<open>None\<close> when it is. The one query handed to the
  session is built from \<^verbatim>\<open>rp\<close> and carries \<^verbatim>\<open>params\<close> with the target's id stored under
  \<^verbatim>\<open>them\<close>: a map with an entry for every deflated property.
\<close>

text \<open>
  C9: \<^verbatim>\<open>connect\<close> with a bound edge-property class, on a persisted source and a valid
  node, when \<^verbatim>\<open>deflate\<close> and the \<^verbatim>\<open>pre_save\<close> hook (if any) succeed. The throw-away
  instance holds, for every declared field, the supplied value or else the declared
  default. The loop over the deflated properties builds \<^verbatim>\<open>params\<close> with the deflated
  value of every property, \<^verbatim>\<open>None\<close> included, and \<^verbatim>\<open>rp\<close> with the placeholder \<^verbatim>\<open>$p\<close> when the
  value is not \<^verbatim>\<open>None\<close> and an explicit \<^verbatim>\<open>None\<close> when it is. The one query handed to the
  session is built from \<^verbatim>\<open>rp\<close> and carries \<^verbatim>\<open>params\<close> with the target's id stored under
  \<^verbatim>\<open>them\<close>: a map with an entry for every deflated property.
\<close>

theorem connect_parameter_map:
  assumes src: "persisted (self_source self)" and nd: "valid_node self nd"
    and them: "n_id nd = Some them"
    and m: "model (self_definition self) = Some m"
    and supplied: "supplied = (if truthy properties then the properties else [])"
    and deflate: "rm_deflate m (inst_properties (instantiate m supplied)) = Inr deflated"
    and keys: "distinct (map fst deflated)"
    and hook: "case rm_pre_save m of None \<Rightarrow> True | Some h \<Rightarrow> h (instantiate m supplied) = Inr ()"
    and built: "bind_items deflated = (rp, params)"
    and sent: "sent = AList.update ''them'' (PInt them) params"
    and q: "q = connect_query self nd
                @ rel_merge_helper env ''us'' ''them'' ''r'' (Some rp) (self_definition self)
                @ '' RETURN r''"
  shows "(\<forall>(f, d) \<in> set (rm_declared m).
            (f, case map_of supplied f of Some v \<Rightarrow> v | None \<Rightarrow> d)
              \<in> set (inst_properties (instantiate m supplied))) \<and>
         (\<forall>(p, v) \<in> set deflated.
            map_of params p = Some v \<and>
            map_of rp p = Some (if v \<noteq> PNone then Some (''$'' @ p) else None) \<and>
            p \<in> fst ` set sent) \<and>
         filter is_query (new_events st (snd (connect env self nd properties st))) =
           [Cypher q (Some sent)
              (failure (fst (run_query env (self_source self) q (Some sent) (db st))))]"
proof (intro conjI)
  show "\<forall>(f, d) \<in> set (rm_declared m).
          (f, case map_of supplied f of Some v \<Rightarrow> v | None \<Rightarrow> d)
            \<in> set (inst_properties (instantiate m supplied))"
    using instantiate_defaults [of _ _ m supplied] by auto
next
  show "filter is_query (new_events st (snd (connect env self nd properties st))) =
           [Cypher q (Some sent)
              (failure (fst (run_query env (self_source self) q (Some sent) (db st))))]"
  proof -
    have d': "rm_deflate m (inst_properties
        (instantiate m (if truthy properties then the properties else []))) = Inr deflated"
      using deflate by (simp add: supplied)
    have h': "case rm_pre_save m of
        None \<Rightarrow> True
      | Some h \<Rightarrow> h (instantiate m (if truthy properties then the properties else [])) = Inr ()"
      using hook by (cases "rm_pre_save m") (simp_all add: supplied)
    have q': "q = connect_query self nd
        @ rel_merge_helper env ''us'' ''them'' ''r'' (Some (fst (bind_items deflated)))
            (self_definition self)
        @ '' RETURN r''"
      using q by (simp add: built)
    have s': "sent = AList.update ''them'' (PInt them) (snd (bind_items deflated))"
      using sent by (simp add: built)
    show ?thesis
      by (rule connect_one_query [OF src nd them m d' h' q' s'])
  qed
next
  show "\<forall>(p, v) \<in> set deflated.
            map_of params p = Some v \<and>
            map_of rp p = Some (if v \<noteq> PNone then Some (''$'' @ p) else None) \<and>
            p \<in> fst ` set sent"
  proof (clarify, intro conjI)
    fix p v
    assume pv: "(p, v) \<in> set deflated"
    from bind_items_entry [OF keys pv, of "([], [])"]
    have e: "map_of rp p = Some (if v \<noteq> PNone then Some (''$'' @ p) else None)"
      and f: "map_of params p = Some v"
      using built by (simp_all add: bind_items_def)
    from e show "map_of rp p = Some (if v \<noteq> PNone then Some (''$'' @ p) else None)" .
    from f show "map_of params p = Some v" .
    from f have "p \<in> fst ` set params"
      by (metis domI dom_map_of_conv_image_fst)
    then show "p \<in> fst ` set sent"
      by (simp add: sent dom_update)
  qed
qed

theorem connect_parameter_map_witness:
  "persisted (self_source alice_friends) \<and> valid_node alice_friends bob \<and> n_id bob = Some 2 \<and>
   model (self_definition alice_friends) = Some (sample_model FriendRel) \<and>
   rm_deflate (sample_model FriendRel)
     (inst_properties (instantiate (sample_model FriendRel) [(''since'', PInt 2020)])) =
     Inr [(''since'', PInt 2020), (''note'', PNone)] \<and>
   bind_items [(''since'', PInt 2020), (''note'', PNone)] =
     ([(''since'', Some ''$since''), (''note'', None)], [(''since'', PInt 2020), (''note'', PNone)]) \<and>
   filter is_query (new_events one_edge
       (snd (connect sample_env alice_friends bob (Some [(''since'', PInt 2020)]) one_edge))) =
     [Cypher ''MATCH (them:Person), (us:Person) WHERE id(them)=$them and id(us)=$self MERGE(us)-[r:FRIEND since: $since note: null]->(them) RETURN r''
        (Some [(''since'', PInt 2020), (''note'', PNone), (''them'', PInt 2)]) None]"
proof -
  let ?m = "sample_model FriendRel"
  let ?deflated = "[(''since'', PInt 2020), (''note'', PNone)]"
  let ?params = "[(''since'', PInt 2020), (''note'', PNone), (''them'', PInt 2)]"
  let ?rp = "[(''since'', Some ''$since''), (''note'', None)]"
  let ?q = "''MATCH (them:Person), (us:Person) WHERE id(them)=$them and id(us)=$self MERGE(us)-[r:FRIEND since: $since note: null]->(them) RETURN r''"
  have src: "persisted (self_source alice_friends)" and nd: "valid_node alice_friends bob"
    and them: "n_id bob = Some 2"
    and m: "model (self_definition alice_friends) = Some ?m"
    by (simp_all add: sample_defs)
  have supplied: "[(''since'', PInt 2020)] =
      (if truthy (Some [(''since'', PInt 2020)]) then the (Some [(''since'', PInt 2020)]) else [])"
    by (simp add: truthy_def)
  have deflate: "rm_deflate ?m (inst_properties (instantiate ?m [(''since'', PInt 2020)])) =
      Inr ?deflated"
    by (simp add: sample_model_def instantiate_def)
  have keys: "distinct (map fst ?deflated)"
    by simp
  have hook: "case rm_pre_save ?m of
      None \<Rightarrow> True | Some h \<Rightarrow> h (instantiate ?m [(''since'', PInt 2020)]) = Inr ()"
    by (simp add: sample_model_def)
  have b: "bind_items ?deflated = (?rp, [(''since'', PInt 2020), (''note'', PNone)])"
    by (simp add: bind_items_def bind_item_def)
  have sent: "?params = AList.update ''them'' (PInt 2) [(''since'', PInt 2020), (''note'', PNone)]"
    by simp
  have q: "?q = connect_query alice_friends bob
      @ rel_merge_helper sample_env ''us'' ''them'' ''r'' (Some ?rp) (self_definition alice_friends)
      @ '' RETURN r''"
    by (simp add: connect_query_def sample_run_defs sample_defs Let_def)
  have run: "fst (run_query sample_env (self_source alice_friends) ?q (Some ?params) (db one_edge)) =
      Inr ([[since_2020]], [''r''])"
    by (simp add: sample_env_def one_edge_def)
  from connect_parameter_map
    [OF src nd them m supplied deflate keys hook b sent q, of one_edge]
  show ?thesis
    using src nd them m deflate b by (simp add: run failure_def)
qed

subsection \<open>Failures surface\<close>









































subsection \<open>Failures in the construction of a definition\<close>













subsection \<open>The silent run is the recording run without its raises\<close>













































subsection \<open>No failure is swallowed, but for three translations\<close>





end
